theory Spec2Isabelle
  imports Main
begin

section \<open>Python values used by the registry\<close>

text \<open>
  Decimal rendering of an integer, as Python's \<open>str\<close> gives it for an \<open>int\<close>.
\<close>

definition digit_char :: "nat \<Rightarrow> char" where
  "digit_char d = ''0123456789'' ! d"

fun str_nat :: "nat \<Rightarrow> string" where
  "str_nat n = (if n < 10 then [digit_char n] else str_nat (n div 10) @ [digit_char (n mod 10)])"

declare str_nat.simps [simp del]

definition str_int :: "int \<Rightarrow> string" where
  "str_int i = (if i < 0 then CHR ''-'' # str_nat (nat (- i)) else str_nat (nat i))"

text \<open>
  \<open>str(x)\<close> for a sequence number: an \<open>int\<close>, or \<open>None\<close> (the value
  \<open>register_schema\<close> itself writes under \<open>"seqNo"\<close> before the ledger assigns one).
\<close>

definition py_str :: "int option \<Rightarrow> string" where
  "py_str v = (case v of None \<Rightarrow> ''None'' | Some i \<Rightarrow> str_int i)"

text \<open>
  \<open>x or d\<close> on an optional string: \<open>None\<close> and the empty string are falsy.
\<close>

definition py_or :: "string option \<Rightarrow> string \<Rightarrow> string" where
  "py_or x d = (case x of None \<Rightarrow> d | Some s \<Rightarrow> (if s = [] then d else s))"

text \<open>\<open>sub in s\<close> on strings: \<open>sub\<close> occurs in \<open>s\<close> as a contiguous run.\<close>

fun py_in_str :: "string \<Rightarrow> string \<Rightarrow> bool" where
  "py_in_str sub [] = (sub = [])"
| "py_in_str sub (c # s) = (take (length sub) (c # s) = sub \<or> py_in_str sub s)"

text \<open>\<open>s.rstrip(chars)\<close>: drop every trailing character that is in \<open>chars\<close>.\<close>

definition rstrip :: "string \<Rightarrow> string \<Rightarrow> string" where
  "rstrip s chars = rev (dropWhile (\<lambda>c. c \<in> set chars) (rev s))"

text \<open>\<open>s.split(sep)[0]\<close> for a one-character separator: the text before its first occurrence.\<close>

definition split_first :: "string \<Rightarrow> char \<Rightarrow> string" where
  "split_first s sep = takeWhile (\<lambda>c. c \<noteq> sep) s"

text \<open>
  JSON values as Python holds them after \<open>json.loads\<close>: the ledger's replies, the
  revocation registry delta and the transactions built for it are dictionaries of these.
  A \<open>JObj\<close> lists the items of a \<open>dict\<close>.
\<close>

datatype json = JNone | JInt int | JStr string | JList "json list" | JObj "(string \<times> json) list"

section \<open>Exceptions\<close>

record AnonCredsSchema =
  schema_issuer_id :: string
  schema_name :: string
  schema_version :: string
  schema_attr_names :: "string list"

text \<open>The ledger's wire form of a schema (the \<open>indy_schema\<close> dictionary).\<close>

record indy_schema =
  is_ver :: string
  is_id :: string
  is_name :: string
  is_version :: string
  is_attrNames :: "string list"
  is_seqNo :: "int option"

datatype CredDefValue = CredDefValue string

text \<open>The ledger's wire form of a credential definition (the \<open>indy_cred_def\<close> dictionary).\<close>

record indy_cred_def =
  ic_id :: string
  ic_schemaId :: string
  ic_tag :: "string option"
  ic_type :: "string option"
  ic_value :: string
  ic_ver :: string

text \<open>
  What a \<open>LedgerObjectAlreadyExistsError\<close> carries in \<open>obj\<close>: the identifier and the
  ledger's own copy of the object.
\<close>

datatype ledger_obj = SchemaObj string indy_schema | CredDefObj string indy_cred_def

text \<open>
  The exceptions that cross the registry. Where the source raises \<open>... from err\<close>, the
  last argument is the cause. \<open>LedgerTransactionError\<close> holds its \<open>roll_up\<close> text;
  \<open>AnonCredsObjectNotFound\<close> holds the ledger id of its resolution metadata;
  \<open>AnonCredsObjectAlreadyExists(message, obj=None)\<close> holds the object it is given, and
  \<open>AnonCredsSchemaAlreadyExists\<close> the pair of a schema id and a schema.
\<close>

datatype exn =
    AnonCredsRegistrationError string "exn option"
  | AnonCredsResolutionError string "exn option"
  | AnonCredsObjectNotFound string "string option"
  | AnonCredsObjectAlreadyExists string "ledger_obj option" "exn option"
  | AnonCredsSchemaAlreadyExists string "string \<times> AnonCredsSchema"
  | AnonCredsIssuerError string
  | RevocationError string
  | LedgerError string
  | LedgerTransactionError string
  | LedgerObjectAlreadyExistsError string "ledger_obj option"
  | InjectionError
  | KeyError string
  | TypeError
  | ValueError

text \<open>\<open>except LedgerError\<close> catches the class and its subclasses.\<close>

fun is_LedgerError :: "exn \<Rightarrow> bool" where
  "is_LedgerError (LedgerError _) = True"
| "is_LedgerError (LedgerTransactionError _) = True"
| "is_LedgerError (LedgerObjectAlreadyExistsError _ _) = True"
| "is_LedgerError _ = False"

text \<open>The exception classes the registry's own domain defines (\<open>anoncreds/base.py\<close>).\<close>

fun is_AnonCredsError :: "exn \<Rightarrow> bool" where
  "is_AnonCredsError (AnonCredsRegistrationError _ _) = True"
| "is_AnonCredsError (AnonCredsResolutionError _ _) = True"
| "is_AnonCredsError (AnonCredsObjectNotFound _ _) = True"
| "is_AnonCredsError (AnonCredsObjectAlreadyExists _ _ _) = True"
| "is_AnonCredsError (AnonCredsSchemaAlreadyExists _ _) = True"
| "is_AnonCredsError _ = False"

text \<open>\<open>d[k]\<close> on a JSON value: \<open>KeyError\<close> on a dictionary without the key.\<close>

fun py_getitem :: "json \<Rightarrow> string \<Rightarrow> exn + json" where
  "py_getitem (JObj kvs) k = (case map_of kvs k of None \<Rightarrow> Inl (KeyError k) | Some v \<Rightarrow> Inr v)"
| "py_getitem _ k = Inl TypeError"

text \<open>\<open>d.get(k)\<close> on a dictionary.\<close>

fun py_get :: "json \<Rightarrow> string \<Rightarrow> json" where
  "py_get (JObj kvs) k = (case map_of kvs k of None \<Rightarrow> JNone | Some v \<Rightarrow> v)"
| "py_get _ k = JNone"

text \<open>Truth value of a JSON value in a condition.\<close>

fun py_truthy :: "json \<Rightarrow> bool" where
  "py_truthy JNone = False"
| "py_truthy (JInt i) = (i \<noteq> 0)"
| "py_truthy (JStr s) = (s \<noteq> [])"
| "py_truthy (JList xs) = (xs \<noteq> [])"
| "py_truthy (JObj kvs) = (kvs \<noteq> [])"

text \<open>
  \<open>i in c\<close> for an integer \<open>i\<close>: membership in a list, key membership in a dictionary
  (whose keys are strings), \<open>TypeError\<close> on anything else.
\<close>

fun py_int_in :: "int \<Rightarrow> json \<Rightarrow> exn + bool" where
  "py_int_in i (JList xs) = Inr (JInt i \<in> set xs)"
| "py_int_in i (JObj kvs) = Inr False"
| "py_int_in i _ = Inl TypeError"

section \<open>Domain model\<close>

record CredDef =
  cd_issuer_id :: string
  cd_schema_id :: string
  cd_type :: "string option"
  cd_tag :: "string option"
  cd_value :: CredDefValue

record GetSchemaResult =
  gs_schema :: AnonCredsSchema
  gs_schema_id :: string
  gs_resolution_metadata :: "string \<rightharpoonup> string option"
  gs_schema_metadata :: "string \<rightharpoonup> int option"

record RevRegDefValue =
  max_cred_num :: int
  public_keys :: json
  tails_hash :: string
  tails_location :: string

record RevRegDef =
  rrd_issuer_id :: string
  rrd_cred_def_id :: string
  rrd_type :: string
  rrd_tag :: string
  rrd_value :: RevRegDefValue

section \<open>Identifier derivation\<close>

definition DEFAULT_CRED_DEF_TAG :: string where
  "DEFAULT_CRED_DEF_TAG = ''default''"

definition DEFAULT_SIGNATURE_TYPE :: string where
  "DEFAULT_SIGNATURE_TYPE = ''CL''"

definition make_schema_id :: "AnonCredsSchema \<Rightarrow> string" where
  "make_schema_id schema =
     schema_issuer_id schema @ '':2:'' @ schema_name schema @ '':'' @ schema_version schema"

definition make_cred_def_id :: "GetSchemaResult \<Rightarrow> CredDef \<Rightarrow> exn + string" where
  "make_cred_def_id schema cred_def =
     (let signature_type = py_or (cd_type cred_def) DEFAULT_SIGNATURE_TYPE;
          tag = py_or (cd_tag cred_def) DEFAULT_CRED_DEF_TAG
      in case gs_schema_metadata schema ''seqNo'' of
           None \<Rightarrow>
             Inl (AnonCredsRegistrationError
                    ''Legacy Indy only supports schemas from Legacy Indy''
                    (Some (KeyError ''seqNo'')))
         | Some v \<Rightarrow>
             Inr (cd_issuer_id cred_def @ '':3:'' @ signature_type @ '':'' @ py_str v
                    @ '':'' @ tag))"

definition make_rev_reg_def_id :: "RevRegDef \<Rightarrow> string" where
  "make_rev_reg_def_id rev_reg_def =
     rrd_issuer_id rev_reg_def @ '':4:'' @ rrd_cred_def_id rev_reg_def @ '':''
       @ rrd_type rev_reg_def @ '':'' @ rrd_tag rev_reg_def"

section \<open>Results\<close>

datatype reg_state = STATE_FINISHED | STATE_WAIT | STATE_ACTION | STATE_FAILED

datatype SchemaState =
  SchemaState (ss_state: reg_state) (ss_schema_id: string) (ss_schema: AnonCredsSchema)

datatype SchemaResult =
  SchemaResult (sr_job_id: "string option") (sr_schema_state: SchemaState)
    (sr_registration_metadata: "string \<rightharpoonup> int option")
    (sr_schema_metadata: "string \<rightharpoonup> int option")

datatype GetCredDefResult =
  GetCredDefResult (gc_credential_definition: CredDef) (gc_credential_definition_id: string)
    (gc_resolution_metadata: "string \<rightharpoonup> string option")
    (gc_credential_definition_metadata: "string \<rightharpoonup> int option")

datatype CredDefState =
  CredDefState (cs_state: reg_state) (cs_credential_definition_id: string)
    (cs_credential_definition: CredDef)

datatype CredDefResult =
  CredDefResult (cr_job_id: "string option") (cr_credential_definition_state: CredDefState)
    (cr_registration_metadata: "string \<rightharpoonup> int option")
    (cr_credential_definition_metadata: "string \<rightharpoonup> int option")

datatype RevRegDefState =
  RevRegDefState (rs_state: reg_state) (rs_revocation_registry_definition_id: string)
    (rs_revocation_registry_definition: RevRegDef)

datatype RevRegDefResult =
  RevRegDefResult (rr_job_id: "string option")
    (rr_revocation_registry_definition_state: RevRegDefState)
    (rr_registration_metadata: "string \<rightharpoonup> json")
    (rr_revocation_registry_definition_metadata: "string \<rightharpoonup> json")

record RevStatusList =
  rsl_issuer_id :: string
  rsl_rev_reg_id :: string
  rsl_current_accumulator :: "string option"
  rsl_revocation_list :: "int list"

datatype RevStatusListState =
  RevStatusListState (ls_state: reg_state) (ls_revocation_status_list: RevStatusList)

datatype RevStatusListResult =
  RevStatusListResult (lr_job_id: "string option")
    (lr_revocation_status_list_state: RevStatusListState)
    (lr_registration_metadata: "string \<rightharpoonup> json")
    (lr_revocation_status_list_metadata: "string \<rightharpoonup> json")

section \<open>The ledger, the wallet and the profile\<close>

text \<open>
  The ledger client (\<open>BaseLedger\<close>) is an external collaborator: each of its methods is a
  field giving the outcome of the call, an exception or a value. \<open>pool_genesis_txns\<close> is
  \<open>ledger.pool.genesis_txns\<close>. Entering and leaving \<open>async with ledger\<close> is not modelled.
\<close>

record Ledger =
  ledger_get_schema :: "string \<Rightarrow> exn + indy_schema option"
  ledger_send_schema :: "string \<Rightarrow> indy_schema \<Rightarrow> exn + int option"
  ledger_get_credential_definition :: "string \<Rightarrow> exn + indy_cred_def option"
  ledger_send_credential_definition ::
    "string \<Rightarrow> string \<Rightarrow> indy_cred_def \<Rightarrow> string \<Rightarrow> exn + int option"
  ledger_send_revoc_reg_def :: "json \<Rightarrow> string \<Rightarrow> exn + json"
  ledger_send_revoc_reg_entry :: "string \<Rightarrow> string \<Rightarrow> json \<Rightarrow> string option \<Rightarrow> exn + json"
  ledger_get_revoc_reg_delta :: "string \<Rightarrow> exn + json"
  pool_genesis_txns :: string

text \<open>
  A wallet record of one issued credential (\<open>IssuerCredRevRecord\<close>): its state and its
  index in the revocation registry. \<open>cred_rev_id\<close> is kept as what \<open>int(rec.cred_rev_id)\<close>
  makes of the stored text: \<open>None\<close> where \<open>int\<close> raises \<open>ValueError\<close>.
\<close>

record IssuerCredRevRecord =
  rec_state :: string
  cred_rev_id :: "int option"

definition STATE_REVOKED :: string where
  "STATE_REVOKED = ''revoked''"

text \<open>
  The profile: its settings, what its injector binds, and its wallet.
  \<^item> \<open>base_ledger\<close> is \<open>profile.inject_or(BaseLedger)\<close>, \<open>session_ledger\<close> the same asked of a
    session of the profile (a session reads the profile's settings);
  \<^item> \<open>multitenant_mgr\<close> says whether a \<open>BaseMultitenantManager\<close> is bound,
    \<open>requests_executor\<close> whether an \<open>IndyLedgerRequestsExecutor\<close> is, and
    \<open>get_ledger_for_identifier\<close> is the executor's answer;
  \<^item> \<open>credential_definition_in_wallet\<close> is the issuer's wallet lookup, \<open>query_by_ids\<close> the
    wallet's revocation records of a registry;
  \<^item> \<open>ledger_revoked\<close> is what the transactions of the ledger opened from given genesis
    transactions hold as the revoked indices of a registry.
\<close>

record Profile =
  profile_name :: string
  settings :: "string \<rightharpoonup> string"
  base_ledger :: "Ledger option"
  session_ledger :: "Ledger option"
  multitenant_mgr :: bool
  requests_executor :: bool
  get_ledger_for_identifier :: "string \<Rightarrow> exn + (string option \<times> Ledger option)"
  credential_definition_in_wallet :: "string \<Rightarrow> exn + bool"
  query_by_ids :: "string \<Rightarrow> IssuerCredRevRecord list"
  ledger_revoked :: "string \<Rightarrow> string \<Rightarrow> int list"

text \<open>The calls made to a ledger, in order: the effects of a registry operation.\<close>

datatype ledger_call =
    GetLedgerForIdentifier string
  | GetSchema string
  | SendSchema string indy_schema
  | GetCredentialDefinition string
  | SendCredentialDefinition string string indy_cred_def string
  | SendRevocRegDef json string
  | SendRevocRegEntry string string json "string option"
  | GetRevocRegDelta string

fun is_send :: "ledger_call \<Rightarrow> bool" where
  "is_send (SendSchema _ _) = True"
| "is_send (SendCredentialDefinition _ _ _ _) = True"
| "is_send (SendRevocRegDef _ _) = True"
| "is_send (SendRevocRegEntry _ _ _ _) = True"
| "is_send _ = False"

text \<open>
  A registry operation ends in an exception or a value, and leaves the list of the
  ledger calls it made.
\<close>

type_synonym 'a io = "(exn + 'a) \<times> ledger_call list"

definition ret :: "'a \<Rightarrow> 'a io" where
  "ret x = (Inr x, [])"

definition raise :: "exn \<Rightarrow> 'a io" where
  "raise e = (Inl e, [])"

definition lift :: "exn + 'a \<Rightarrow> 'a io" where
  "lift r = (r, [])"

definition call :: "ledger_call \<Rightarrow> exn + 'a \<Rightarrow> 'a io" where
  "call c r = (r, [c])"

definition bind :: "'a io \<Rightarrow> ('a \<Rightarrow> 'b io) \<Rightarrow> 'b io" where
  "bind m f =
     (case m of
        (Inl e, t) \<Rightarrow> (Inl e, t)
      | (Inr x, t) \<Rightarrow> (case f x of (r, t') \<Rightarrow> (r, t @ t')))"

text \<open>\<open>try: m except: h\<close>; a handler re-raises what its \<open>except\<close> clauses do not match.\<close>

definition try_except :: "'a io \<Rightarrow> (exn \<Rightarrow> 'a io) \<Rightarrow> 'a io" where
  "try_except m h =
     (case m of
        (Inl e, t) \<Rightarrow> (case h e of (r, t') \<Rightarrow> (r, t @ t'))
      | (Inr x, t) \<Rightarrow> (Inr x, t))"

text \<open>\<open>not x\<close> on an optional string.\<close>

definition py_not :: "string option \<Rightarrow> bool" where
  "py_not x = (case x of None \<Rightarrow> True | Some s \<Rightarrow> s = [])"

definition no_ledger_reason :: "Profile \<Rightarrow> string" where
  "no_ledger_reason profile =
     (if py_not (settings profile ''wallet.type'')
      then ''No ledger available'' @ '': missing wallet-type?''
      else ''No ledger available'')"

text \<open>\<open>except (AnonCredsIssuerError, LedgerError)\<close>.\<close>

fun is_issuer_or_ledger_error :: "exn \<Rightarrow> bool" where
  "is_issuer_or_ledger_error (AnonCredsIssuerError _) = True"
| "is_issuer_or_ledger_error e = is_LedgerError e"

section \<open>Resolver\<close>

definition get_schema :: "Profile \<Rightarrow> string \<Rightarrow> GetSchemaResult io" where
  "get_schema profile schema_id =
     (if \<not> multitenant_mgr profile \<and> \<not> requests_executor profile then raise InjectionError
      else
        bind (call (GetLedgerForIdentifier schema_id) (get_ledger_for_identifier profile schema_id))
          (\<lambda>(ledger_id, ledger).
            case ledger of
              None \<Rightarrow> raise (AnonCredsResolutionError (no_ledger_reason profile) None)
            | Some ledger \<Rightarrow>
                try_except
                  (bind (call (GetSchema schema_id) (ledger_get_schema ledger schema_id))
                     (\<lambda>schema.
                       case schema of
                         None \<Rightarrow>
                           raise (AnonCredsObjectNotFound
                                    (''Credential definition not found: '' @ schema_id) ledger_id)
                       | Some schema \<Rightarrow>
                           ret \<lparr>gs_schema =
                                  \<lparr>schema_issuer_id = split_first (is_id schema) CHR '':'',
                                   schema_name = is_name schema,
                                   schema_version = is_ver schema,
                                   schema_attr_names = is_attrNames schema\<rparr>,
                                gs_schema_id = is_id schema,
                                gs_resolution_metadata = [''ledger_id'' \<mapsto> ledger_id],
                                gs_schema_metadata = [''seqNo'' \<mapsto> is_seqNo schema]\<rparr>))
                  (\<lambda>err.
                    if is_LedgerError err
                    then raise (AnonCredsResolutionError ''Failed to retrieve schema'' (Some err))
                    else raise err)))"

definition get_credential_definition :: "Profile \<Rightarrow> string \<Rightarrow> GetCredDefResult io" where
  "get_credential_definition profile cred_def_id =
     (if \<not> multitenant_mgr profile \<and> \<not> requests_executor profile then raise InjectionError
      else
        bind (call (GetLedgerForIdentifier cred_def_id)
                (get_ledger_for_identifier profile cred_def_id))
          (\<lambda>(ledger_id, ledger).
            case ledger of
              None \<Rightarrow> raise (AnonCredsResolutionError (no_ledger_reason profile) None)
            | Some ledger \<Rightarrow>
                bind (call (GetCredentialDefinition cred_def_id)
                        (ledger_get_credential_definition ledger cred_def_id))
                  (\<lambda>cred_def.
                    case cred_def of
                      None \<Rightarrow>
                        raise (AnonCredsObjectNotFound
                                 (''Credential definition not found: '' @ cred_def_id) ledger_id)
                    | Some cred_def \<Rightarrow>
                        ret (GetCredDefResult
                               \<lparr>cd_issuer_id = split_first (ic_id cred_def) CHR '':'',
                                cd_schema_id = ic_schemaId cred_def,
                                cd_type = ic_type cred_def,
                                cd_tag = ic_tag cred_def,
                                cd_value = CredDefValue (ic_value cred_def)\<rparr>
                               (ic_id cred_def) Map.empty Map.empty))))"

section \<open>Registrar\<close>

definition register_schema :: "Profile \<Rightarrow> AnonCredsSchema \<Rightarrow> SchemaResult io" where
  "register_schema profile schema =
     (let schema_id = make_schema_id schema in
      case base_ledger profile of
        None \<Rightarrow> raise (AnonCredsRegistrationError (no_ledger_reason profile) None)
      | Some ledger \<Rightarrow>
          (let indy_schema =
                 \<lparr>is_ver = ''1.0'', is_id = schema_id, is_name = schema_name schema,
                  is_version = schema_version schema, is_attrNames = schema_attr_names schema,
                  is_seqNo = None\<rparr>
           in bind
                (try_except
                   (call (SendSchema schema_id indy_schema)
                      (ledger_send_schema ledger schema_id indy_schema))
                   (\<lambda>err.
                     case err of
                       LedgerObjectAlreadyExistsError message obj \<Rightarrow>
                         (case obj of
                            None \<Rightarrow> raise TypeError
                          | Some (CredDefObj oid c) \<Rightarrow> raise (KeyError ''name'')
                          | Some (SchemaObj oid indy_schema) \<Rightarrow>
                              raise (AnonCredsSchemaAlreadyExists message
                                (oid,
                                 \<lparr>schema_issuer_id = split_first (is_id indy_schema) CHR '':'',
                                  schema_name = is_name indy_schema,
                                  schema_version = is_version indy_schema,
                                  schema_attr_names = is_attrNames indy_schema\<rparr>)))
                     | _ \<Rightarrow>
                         if is_issuer_or_ledger_error err
                         then raise (AnonCredsRegistrationError ''Failed to register schema''
                                       (Some err))
                         else raise err))
                (\<lambda>seq_no.
                  ret (SchemaResult None (SchemaState STATE_FINISHED schema_id schema)
                         Map.empty [''seqNo'' \<mapsto> seq_no]))))"

definition register_credential_definition ::
  "Profile \<Rightarrow> GetSchemaResult \<Rightarrow> CredDef \<Rightarrow> (string \<rightharpoonup> int option) option \<Rightarrow> CredDefResult io"
where
  "register_credential_definition profile schema credential_definition options =
     bind (lift (make_cred_def_id schema credential_definition))
       (\<lambda>cred_def_id.
         case base_ledger profile of
           None \<Rightarrow> raise (AnonCredsRegistrationError (no_ledger_reason profile) None)
         | Some ledger \<Rightarrow>
             bind (lift (credential_definition_in_wallet profile cred_def_id))
               (\<lambda>in_wallet.
                 bind
                   (if in_wallet
                    then try_except
                           (bind (get_credential_definition profile cred_def_id)
                              (\<lambda>found. ret ()))
                           (\<lambda>err.
                             case err of
                               AnonCredsObjectNotFound m i \<Rightarrow>
                                 raise (AnonCredsRegistrationError
                                          (''Credential definition with id '' @ cred_def_id
                                             @ '' already exists in wallet but not on the ledger'')
                                          (Some err))
                             | _ \<Rightarrow> raise err)
                    else ret ())
                   (\<lambda>checked.
                     bind
                       (lift (case gs_schema_metadata schema ''seqNo'' of
                                None \<Rightarrow> Inl (KeyError ''seqNo'')
                              | Some v \<Rightarrow> Inr (py_str v)))
                       (\<lambda>schemaId.
                         let indy_cred_def =
                               \<lparr>ic_id = cred_def_id, ic_schemaId = schemaId,
                                ic_tag = cd_tag credential_definition,
                                ic_type = cd_type credential_definition,
                                ic_value =
                                  (case cd_value credential_definition of CredDefValue v \<Rightarrow> v),
                                ic_ver = ''1.0''\<rparr>
                         in bind
                              (try_except
                                 (call
                                    (SendCredentialDefinition
                                       (cd_schema_id credential_definition) cred_def_id
                                       indy_cred_def (cd_issuer_id credential_definition))
                                    (ledger_send_credential_definition ledger
                                       (cd_schema_id credential_definition) cred_def_id
                                       indy_cred_def (cd_issuer_id credential_definition)))
                                 (\<lambda>err.
                                   case err of
                                     LedgerObjectAlreadyExistsError message obj \<Rightarrow>
                                       bind
                                         (lift (credential_definition_in_wallet profile
                                                  cred_def_id))
                                         (\<lambda>in_wallet.
                                           if in_wallet
                                           then raise (AnonCredsObjectAlreadyExists
                                                  (''Credential definition with id ''
                                                     @ cred_def_id
                                                     @ '' already exists in wallet and on ledger.'')
                                                  None (Some err))
                                           else raise (AnonCredsObjectAlreadyExists
                                                  (''Credential definition '' @ cred_def_id
                                                     @ '' is on ledger but not in wallet ''
                                                     @ profile_name profile)
                                                  None (Some err)))
                                   | _ \<Rightarrow>
                                       if is_issuer_or_ledger_error err
                                       then raise (AnonCredsRegistrationError
                                              ''Failed to register credential definition''
                                              (Some err))
                                       else raise err))
                              (\<lambda>seq_no.
                                ret (CredDefResult None
                                       (CredDefState STATE_FINISHED cred_def_id
                                          credential_definition)
                                       Map.empty
                                       ([''seqNo'' \<mapsto> seq_no]
                                          ++ (case options of None \<Rightarrow> Map.empty
                                              | Some opts \<Rightarrow> opts))))))))"

subsection \<open>Revocation registry definitions\<close>

text \<open>
  \<open>urllib.parse.urlparse\<close> belongs to Python's library, not to the registry: it is a
  parameter, giving the parts \<open>_check_url\<close> reads (or the \<open>ValueError\<close> it raises).
\<close>

record ParseResult =
  scheme :: string
  netloc :: string
  path :: string

definition check_url :: "(string \<Rightarrow> exn + ParseResult) \<Rightarrow> string \<Rightarrow> exn + unit" where
  "check_url urlparse url =
     (case urlparse url of
        Inl e \<Rightarrow> Inl e
      | Inr parsed \<Rightarrow>
          if \<not> (scheme parsed \<noteq> [] \<and> netloc parsed \<noteq> [] \<and> path parsed \<noteq> [])
          then Inl (RevocationError (''URI '' @ url @ '' is not a valid URL''))
          else Inr ())"

text \<open>
  The operation assigns to \<open>revocation_registry_definition.value.tails_location\<close>: next
  to its outcome it returns the caller's artifact as the call leaves it.
\<close>

definition register_revocation_registry_definition ::
  "(string \<Rightarrow> exn + ParseResult) \<Rightarrow> Profile \<Rightarrow> RevRegDef \<Rightarrow> RevRegDefResult io \<times> RevRegDef"
where
  "register_revocation_registry_definition urlparse profile revocation_registry_definition =
     (let tails_base_url = settings profile ''tails_server_base_url'' in
      case tails_base_url of
        None \<Rightarrow>
          (raise (AnonCredsRegistrationError ''tails_server_base_url not configured'' None),
           revocation_registry_definition)
      | Some base_url \<Rightarrow>
          if base_url = []
          then (raise (AnonCredsRegistrationError ''tails_server_base_url not configured'' None),
                revocation_registry_definition)
          else
            (let rev_reg_def_id = make_rev_reg_def_id revocation_registry_definition;
                 revocation_registry_definition =
                   revocation_registry_definition
                     \<lparr>rrd_value := (rrd_value revocation_registry_definition)
                        \<lparr>tails_location := rstrip base_url ''/'' @ ''/'' @ rev_reg_def_id\<rparr>\<rparr>
             in (bind
                   (try_except
                      (bind
                         (lift (check_url urlparse
                                  (tails_location (rrd_value revocation_registry_definition))))
                         (\<lambda>checked.
                           let indy_rev_reg_def =
                                 JObj
                                   [(''ver'', JStr ''1.0''),
                                    (''id'', JStr rev_reg_def_id),
                                    (''revocDefType'',
                                       JStr (rrd_type revocation_registry_definition)),
                                    (''credDefId'',
                                       JStr (rrd_cred_def_id revocation_registry_definition)),
                                    (''tag'', JStr (rrd_tag revocation_registry_definition)),
                                    (''value'',
                                       JObj
                                         [(''issuanceType'', JStr ''ISSUANCE_BY_DEFAULT''),
                                          (''maxCredNum'',
                                             JInt (max_cred_num
                                                     (rrd_value revocation_registry_definition))),
                                          (''publicKeys'',
                                             public_keys
                                               (rrd_value revocation_registry_definition)),
                                          (''tailsHash'',
                                             JStr (tails_hash
                                                     (rrd_value revocation_registry_definition))),
                                          (''tailsLocation'',
                                             JStr (tails_location
                                                     (rrd_value
                                                        revocation_registry_definition)))])]
                           in case base_ledger profile of
                                None \<Rightarrow> raise InjectionError
                              | Some ledger \<Rightarrow>
                                  bind
                                    (call
                                       (SendRevocRegDef indy_rev_reg_def
                                          (rrd_issuer_id revocation_registry_definition))
                                       (ledger_send_revoc_reg_def ledger indy_rev_reg_def
                                          (rrd_issuer_id revocation_registry_definition)))
                                    (\<lambda>resp.
                                      bind (lift (py_getitem resp ''result''))
                                        (\<lambda>result.
                                          bind (lift (py_getitem result ''txnMetadata''))
                                            (\<lambda>txnMetadata.
                                              lift (py_getitem txnMetadata ''seqNo''))))))
                      (\<lambda>err.
                        if is_LedgerError err
                        then raise (AnonCredsRegistrationError [] (Some err))
                        else raise err))
                   (\<lambda>seq_no.
                     ret (RevRegDefResult None
                            (RevRegDefState STATE_FINISHED rev_reg_def_id
                               revocation_registry_definition)
                            Map.empty [''seqNo'' \<mapsto> seq_no])),
                 revocation_registry_definition)))"

subsection \<open>Revocation reconciliation\<close>

text \<open>The \<open>int\<close> entries of a JSON list.\<close>

fun ints_of :: "json list \<Rightarrow> int list" where
  "ints_of [] = []"
| "ints_of (JInt i # xs) = i # ints_of xs"
| "ints_of (x # xs) = ints_of xs"

text \<open>
  The indices listed under \<open>["value"]["revoked"]\<close> of a registry delta or of a registry
  entry transaction (none when the keys are absent).
\<close>

definition revoked_indices :: "json \<Rightarrow> int list" where
  "revoked_indices entry =
     (case py_get (py_get entry ''value'') ''revoked'' of JList xs \<Rightarrow> ints_of xs | _ \<Rightarrow> [])"

text \<open>\<open>i in rev_reg_delta["value"]["revoked"]\<close>.\<close>

definition in_delta_revoked :: "int \<Rightarrow> json \<Rightarrow> exn + bool" where
  "in_delta_revoked i rev_reg_delta =
     (case py_getitem rev_reg_delta ''value'' of
        Inl e \<Rightarrow> Inl e
      | Inr v \<Rightarrow>
          (case py_getitem v ''revoked'' of
             Inl e \<Rightarrow> Inl e
           | Inr revoked \<Rightarrow> py_int_in i revoked))"

text \<open>
  Modelled from the spec: \<open>generate_ledger_rrrecovery_txn\<close> of \<open>revocation/recover.py\<close>,
  which is not among the sources. The spec (4.5, step 5) has it compute, from the ledger's
  genesis material, "a corrective transaction that republishes exactly the missed indices",
  a missed index being (step 3) one the wallet marks revoked that is absent from the
  ledger's revoked-index set. \<open>on_ledger\<close> is what the ledger reached through the genesis
  transactions holds as revoked. The accumulator values of the entry are cryptographic and
  left out.
\<close>

definition generate_ledger_rrrecovery_txn ::
  "(string \<Rightarrow> string \<Rightarrow> int list) \<Rightarrow> string \<Rightarrow> string \<Rightarrow> int list \<Rightarrow> json"
where
  "generate_ledger_rrrecovery_txn on_ledger genesis_txns registry_id set_revoked =
     JObj [(''ver'', JStr ''1.0''),
           (''value'',
              JObj [(''revoked'',
                       JList (map JInt
                                (filter (\<lambda>i. i \<notin> set (on_ledger genesis_txns registry_id))
                                   (remdups set_revoked))))])]"

text \<open>
  The loop of \<open>fix_ledger_entry\<close> over the wallet's records: it collects the index of every
  revoked record and counts those the ledger's delta does not list.
\<close>

fun revoked_loop ::
  "json \<Rightarrow> IssuerCredRevRecord list \<Rightarrow> int list \<Rightarrow> nat \<Rightarrow> exn + (int list \<times> nat)"
where
  "revoked_loop rev_reg_delta [] revoked_ids rec_count = Inr (revoked_ids, rec_count)"
| "revoked_loop rev_reg_delta (r # recs) revoked_ids rec_count =
     (if rec_state r = STATE_REVOKED
      then (case cred_rev_id r of
              None \<Rightarrow> Inl ValueError
            | Some i \<Rightarrow>
                (case in_delta_revoked i rev_reg_delta of
                   Inl e \<Rightarrow> Inl e
                 | Inr present \<Rightarrow>
                     revoked_loop rev_reg_delta recs (revoked_ids @ [i])
                       (if \<not> present then rec_count + 1 else rec_count)))
      else revoked_loop rev_reg_delta recs revoked_ids rec_count)"

text \<open>
  The accumulator check: \<open>accum_count\<close> is 1 when the wallet's accumulator and the delta's
  are both there and differ. Nothing reads it afterwards.
\<close>

definition accum_check :: "RevStatusList \<Rightarrow> json \<Rightarrow> exn + nat" where
  "accum_check rev_status_list rev_reg_delta =
     (if \<not> py_not (rsl_current_accumulator rev_status_list)
         \<and> py_truthy (py_get rev_reg_delta ''value'')
      then (case py_getitem rev_reg_delta ''value'' of
              Inl e \<Rightarrow> Inl e
            | Inr v \<Rightarrow>
                (case py_getitem v ''accum'' of
                   Inl e \<Rightarrow> Inl e
                 | Inr accum \<Rightarrow>
                     Inr (if (case rsl_current_accumulator rev_status_list of
                                None \<Rightarrow> JNone | Some a \<Rightarrow> JStr a) \<noteq> accum
                          then 1 else 0)))
      else Inr 0)"

definition fix_ledger_entry ::
  "Profile \<Rightarrow> RevStatusList \<Rightarrow> bool \<Rightarrow> string \<Rightarrow> (json \<times> json \<times> json) io"
where
  "fix_ledger_entry profile rev_status_list apply_ledger_update genesis_transactions =
     (case base_ledger profile of
        None \<Rightarrow> raise InjectionError
      | Some ledger \<Rightarrow>
          bind
            (call (GetRevocRegDelta (rsl_rev_reg_id rev_status_list))
               (ledger_get_revoc_reg_delta ledger (rsl_rev_reg_id rev_status_list)))
            (\<lambda>rev_reg_delta.
              let recs = query_by_ids profile (rsl_rev_reg_id rev_status_list) in
              bind (lift (revoked_loop rev_reg_delta recs [] 0))
                (\<lambda>(revoked_ids, rec_count).
                  if rec_count > 0
                  then
                    bind (lift (accum_check rev_status_list rev_reg_delta))
                      (\<lambda>accum_count.
                        let recovery_txn =
                              generate_ledger_rrrecovery_txn (ledger_revoked profile)
                                genesis_transactions (rsl_rev_reg_id rev_status_list)
                                revoked_ids
                        in if apply_ledger_update
                           then (case session_ledger profile of
                                   None \<Rightarrow> raise (LedgerError (no_ledger_reason profile))
                                 | Some ledger \<Rightarrow>
                                     bind
                                       (call
                                          (SendRevocRegEntry (rsl_rev_reg_id rev_status_list)
                                             ''CL_ACCUM'' recovery_txn None)
                                          (ledger_send_revoc_reg_entry ledger
                                             (rsl_rev_reg_id rev_status_list) ''CL_ACCUM''
                                             recovery_txn None))
                                       (\<lambda>ledger_response.
                                         bind (lift (py_getitem ledger_response ''result''))
                                           (\<lambda>applied_txn.
                                             ret (rev_reg_delta, recovery_txn, applied_txn))))
                           else ret (rev_reg_delta, recovery_txn, JObj []))
                  else ret (rev_reg_delta, JObj [], JObj []))))"

subsection \<open>Revocation status lists\<close>

text \<open>\<open>{"value": {"accum": rev_status_list.current_accumulator}}\<close>\<close>

definition accum_entry :: "RevStatusList \<Rightarrow> json" where
  "accum_entry rev_status_list =
     JObj [(''value'',
              JObj [(''accum'',
                       (case rsl_current_accumulator rev_status_list of
                          None \<Rightarrow> JNone | Some a \<Rightarrow> JStr a))])]"

definition register_revocation_status_list ::
  "Profile \<Rightarrow> RevRegDef \<Rightarrow> RevStatusList \<Rightarrow> RevStatusListResult io"
where
  "register_revocation_status_list profile rev_reg_def rev_status_list =
     (case base_ledger profile of
        None \<Rightarrow> raise InjectionError
      | Some ledger \<Rightarrow>
          (let rev_reg_entry = accum_entry rev_status_list
           in bind
                (try_except
                   (call
                      (SendRevocRegEntry (rsl_rev_reg_id rev_status_list) (rrd_type rev_reg_def)
                         rev_reg_entry (Some (rsl_issuer_id rev_status_list)))
                      (ledger_send_revoc_reg_entry ledger (rsl_rev_reg_id rev_status_list)
                         (rrd_type rev_reg_def) rev_reg_entry
                         (Some (rsl_issuer_id rev_status_list))))
                   (\<lambda>err.
                     case err of
                       LedgerTransactionError roll_up \<Rightarrow>
                         if py_in_str ''InvalidClientRequest'' roll_up
                         then bind
                                (fix_ledger_entry profile rev_status_list True
                                   (pool_genesis_txns ledger))
                                (\<lambda>(d, t, res). ret (JObj [(''result'', res)]))
                         else if py_in_str ''InvalidClientTaaAcceptanceError'' roll_up
                         then raise (AnonCredsRegistrationError
                                       ''Ledger update failed due to TAA Issue'' (Some err))
                         else raise (AnonCredsRegistrationError
                                       ''Ledger update failed due to unknown issue'' (Some err))
                     | _ \<Rightarrow> raise err))
                (\<lambda>rev_entry_res.
                  bind (lift (py_getitem rev_entry_res ''result''))
                    (\<lambda>result.
                      bind (lift (py_getitem result ''txnMetadata''))
                        (\<lambda>txnMetadata.
                          bind (lift (py_getitem txnMetadata ''seqNo''))
                            (\<lambda>seq_no.
                              ret (RevStatusListResult None
                                     (RevStatusListState STATE_FINISHED rev_status_list)
                                     Map.empty [''seqNo'' \<mapsto> seq_no])))))))"

section \<open>Example inputs\<close>

definition ex_schema :: AnonCredsSchema where
  "ex_schema =
     \<lparr>schema_issuer_id = ''did:example:issuer1'', schema_name = ''degree'',
      schema_version = ''1.0'', schema_attr_names = [''name'', ''date'']\<rparr>"

definition ex_cred_def :: CredDef where
  "ex_cred_def =
     \<lparr>cd_issuer_id = ''did:example:issuer1'',
      cd_schema_id = ''did:example:issuer1:2:degree:1.0'', cd_type = None, cd_tag = None,
      cd_value = CredDefValue ''{}''\<rparr>"

definition ex_get_schema_result :: GetSchemaResult where
  "ex_get_schema_result =
     \<lparr>gs_schema = ex_schema,
      gs_schema_id = ''did:example:issuer1:2:degree:1.0'',
      gs_resolution_metadata = [''ledger_id'' \<mapsto> None],
      gs_schema_metadata = [''seqNo'' \<mapsto> Some 12]\<rparr>"

definition ex_rev_reg_id :: string where
  "ex_rev_reg_id = ''did:example:issuer1:4:did:example:issuer1:3:CL:12:default:CL_ACCUM:default''"

definition ex_rev_status_list :: RevStatusList where
  "ex_rev_status_list =
     \<lparr>rsl_issuer_id = ''did:example:issuer1'', rsl_rev_reg_id = ex_rev_reg_id,
      rsl_current_accumulator = Some ''21 1F2C'', rsl_revocation_list = [0, 0, 0, 1, 0, 0, 0, 1]\<rparr>"

text \<open>A ledger delta that lists the given indices as revoked.\<close>

definition ex_delta :: "int list \<Rightarrow> json" where
  "ex_delta revoked =
     JObj [(''ver'', JStr ''1.0''),
           (''value'', JObj [(''accum'', JStr ''21 0A7B''), (''revoked'', JList (map JInt revoked))])]"

text \<open>A ledger reply to a write, carrying the sequence number of the transaction.\<close>

definition ex_reply :: "int \<Rightarrow> json" where
  "ex_reply n = JObj [(''result'', JObj [(''txnMetadata'', JObj [(''seqNo'', JInt n)])])]"

text \<open>A ledger that accepts every write and has published the revocation of index 3.\<close>

definition ex_ledger :: Ledger where
  "ex_ledger =
     \<lparr>ledger_get_schema = (\<lambda>schema_id. Inr None),
      ledger_send_schema = (\<lambda>schema_id indy_schema. Inr (Some 12)),
      ledger_get_credential_definition = (\<lambda>cred_def_id. Inr None),
      ledger_send_credential_definition = (\<lambda>schema_id cred_def_id cred_def endorser. Inr (Some 13)),
      ledger_send_revoc_reg_def = (\<lambda>rev_reg_def issuer. Inr (ex_reply 14)),
      ledger_send_revoc_reg_entry = (\<lambda>rev_reg_id def_type entry issuer. Inr (ex_reply 15)),
      ledger_get_revoc_reg_delta = (\<lambda>rev_reg_id. Inr (ex_delta [3])),
      pool_genesis_txns = ''genesis''\<rparr>"

text \<open>
  A profile on that ledger whose wallet marks the credentials of index 3 and 7 revoked and
  the one of index 9 issued.
\<close>

definition ex_profile :: Profile where
  "ex_profile =
     \<lparr>profile_name = ''issuer'',
      settings = [''wallet.type'' \<mapsto> ''askar'',
                  ''tails_server_base_url'' \<mapsto> ''https://tails.example/''],
      base_ledger = Some ex_ledger,
      session_ledger = Some ex_ledger,
      multitenant_mgr = False,
      requests_executor = True,
      get_ledger_for_identifier = (\<lambda>identifier. Inr (Some ''main'', Some ex_ledger)),
      credential_definition_in_wallet = (\<lambda>cred_def_id. Inr False),
      query_by_ids =
        (\<lambda>rev_reg_id.
          [\<lparr>rec_state = ''revoked'', cred_rev_id = Some 3\<rparr>,
           \<lparr>rec_state = ''revoked'', cred_rev_id = Some 7\<rparr>,
           \<lparr>rec_state = ''issued'', cred_rev_id = Some 9\<rparr>]),
      ledger_revoked = (\<lambda>genesis rev_reg_id. [3])\<rparr>"

text \<open>The same profile on a ledger that has published the revocations of 3 and 7.\<close>

definition ex_profile_in_sync :: Profile where
  "ex_profile_in_sync =
     ex_profile
       \<lparr>base_ledger :=
          Some (ex_ledger\<lparr>ledger_get_revoc_reg_delta := (\<lambda>rev_reg_id. Inr (ex_delta [3, 7]))\<rparr>),
        ledger_revoked := (\<lambda>genesis rev_reg_id. [3, 7])\<rparr>"

text \<open>
  The indices of the wallet records that \<open>fix_ledger_entry\<close> takes as revoked: state
  \<open>revoked\<close>, with an index \<open>int\<close> accepts.
\<close>

definition wallet_revoked_ids :: "IssuerCredRevRecord list \<Rightarrow> int list" where
  "wallet_revoked_ids recs =
     concat (map (\<lambda>r. if rec_state r = STATE_REVOKED
                       then (case cred_rev_id r of None \<Rightarrow> [] | Some i \<Rightarrow> [i])
                       else [])
               recs)"

definition ex_rev_reg_def :: RevRegDef where
  "ex_rev_reg_def =
     \<lparr>rrd_issuer_id = ''did:example:issuer1'',
      rrd_cred_def_id = ''did:example:issuer1:3:CL:12:default'',
      rrd_type = ''CL_ACCUM'', rrd_tag = ''default'',
      rrd_value =
        \<lparr>max_cred_num = 100, public_keys = JObj [], tails_hash = ''91zvq2cFmBZmHCcLqFyzv7'',
         tails_location = ''file:///tmp/tails''\<rparr>\<rparr>"

definition ex_roll_up :: string where
  "ex_roll_up = ''client request invalid: InvalidClientRequest(bad accumulator)''"

text \<open>A ledger that rejects every registry entry as an invalid client request.\<close>

definition ex_rejecting_ledger :: Ledger where
  "ex_rejecting_ledger =
     ex_ledger
       \<lparr>ledger_send_revoc_reg_entry :=
          (\<lambda>rev_reg_id def_type entry issuer. Inl (LedgerTransactionError ex_roll_up))\<rparr>"

text \<open>
  A ledger that rejects the entry the issuer submits (the status list's accumulator) and
  accepts the corrective entry, which names no issuer.
\<close>

definition ex_repairable_ledger :: Ledger where
  "ex_repairable_ledger =
     ex_ledger
       \<lparr>ledger_send_revoc_reg_entry :=
          (\<lambda>rev_reg_id def_type entry issuer.
            if issuer = None then Inr (ex_reply 15)
            else Inl (LedgerTransactionError ex_roll_up))\<rparr>"

definition ex_profile_rejecting :: Profile where
  "ex_profile_rejecting =
     ex_profile\<lparr>base_ledger := Some ex_rejecting_ledger,
                 session_ledger := Some ex_rejecting_ledger\<rparr>"

definition ex_profile_repairable :: Profile where
  "ex_profile_repairable =
     ex_profile\<lparr>base_ledger := Some ex_repairable_ledger,
                 session_ledger := Some ex_repairable_ledger\<rparr>"

text \<open>
  A schema a caller submits, and the copy the ledger holds under the same identifier, with
  other attribute names.
\<close>

definition ex_caller_schema :: AnonCredsSchema where
  "ex_caller_schema =
     \<lparr>schema_issuer_id = ''WgWxqztrNooG92RXvxSTWv'', schema_name = ''degree'',
      schema_version = ''1.0'', schema_attr_names = [''name'', ''date'']\<rparr>"

definition ex_ledger_schema :: indy_schema where
  "ex_ledger_schema =
     \<lparr>is_ver = ''1.0'', is_id = ''WgWxqztrNooG92RXvxSTWv:2:degree:1.0'', is_name = ''degree'',
      is_version = ''1.0'', is_attrNames = [''name''], is_seqNo = Some 12\<rparr>"

definition ex_ledger_cred_def :: indy_cred_def where
  "ex_ledger_cred_def =
     \<lparr>ic_id = ''did:example:issuer1:3:CL:12:default'', ic_schemaId = ''12'',
      ic_tag = Some ''default'', ic_type = Some ''CL'', ic_value = ''{primary}'',
      ic_ver = ''1.0''\<rparr>"

text \<open>A ledger on which the schema and the credential definition already exist.\<close>

definition ex_ledger_with_objects :: Ledger where
  "ex_ledger_with_objects =
     ex_ledger
       \<lparr>ledger_send_schema :=
          (\<lambda>schema_id indy_schema.
            Inl (LedgerObjectAlreadyExistsError ''Schema already exists on ledger''
                   (Some (SchemaObj schema_id ex_ledger_schema)))),
        ledger_send_credential_definition :=
          (\<lambda>schema_id cred_def_id cred_def endorser.
            Inl (LedgerObjectAlreadyExistsError ''Credential definition already exists on ledger''
                   (Some (CredDefObj cred_def_id ex_ledger_cred_def))))\<rparr>"

definition ex_profile_with_objects :: Profile where
  "ex_profile_with_objects = ex_profile\<lparr>base_ledger := Some ex_ledger_with_objects\<rparr>"

text \<open>
  A stand-in for \<open>urlparse\<close> on plain URLs: the scheme is the text before the first
  colon when that is a letter followed by letters, digits, \<open>+\<close>, \<open>-\<close> or \<open>.\<close>; after
  \<open>//\<close> the network location runs up to the next \<open>/\<close>, \<open>?\<close> or \<open>#\<close>; the path runs up to
  the next \<open>?\<close> or \<open>#\<close>.
\<close>

definition ex_urlparse :: "string \<Rightarrow> exn + ParseResult" where
  "ex_urlparse url =
     (let pre = takeWhile (\<lambda>c. c \<noteq> CHR '':'') url;
          has_scheme =
            (length pre < length url \<and> pre \<noteq> []
             \<and> set (take 1 pre)
                  \<subseteq> set ''abcdefghijklmnopqrstuvwxyzABCDEFGHIJKLMNOPQRSTUVWXYZ''
             \<and> set pre
                  \<subseteq> set ''abcdefghijklmnopqrstuvwxyzABCDEFGHIJKLMNOPQRSTUVWXYZ0123456789+-.'');
          rest = (if has_scheme then drop (length pre + 1) url else url);
          has_netloc = (take 2 rest = ''//'');
          after = (if has_netloc then dropWhile (\<lambda>c. c \<notin> set ''/?#'') (drop 2 rest) else rest)
      in Inr \<lparr>scheme = (if has_scheme then pre else []),
               netloc = (if has_netloc then takeWhile (\<lambda>c. c \<notin> set ''/?#'') (drop 2 rest)
                         else []),
               path = takeWhile (\<lambda>c. c \<notin> set ''?#'') after\<rparr>)"

text \<open>Profiles without a tails server, and with a base URL that names no scheme.\<close>

definition ex_profile_no_tails :: Profile where
  "ex_profile_no_tails = ex_profile\<lparr>settings := [''wallet.type'' \<mapsto> ''askar'']\<rparr>"

definition ex_profile_bad_tails :: Profile where
  "ex_profile_bad_tails =
     ex_profile\<lparr>settings := [''wallet.type'' \<mapsto> ''askar'',
                              ''tails_server_base_url'' \<mapsto> ''tails.example'']\<rparr>"

text \<open>A ledger whose pool does not answer, and a profile on it.\<close>

definition ex_unreachable_ledger :: Ledger where
  "ex_unreachable_ledger =
     ex_ledger
       \<lparr>ledger_get_schema := (\<lambda>schema_id. Inl (LedgerError ''pool timeout'')),
        ledger_get_credential_definition := (\<lambda>cred_def_id. Inl (LedgerError ''pool timeout'')),
        ledger_send_revoc_reg_def := (\<lambda>rev_reg_def issuer. Inl (LedgerError ''pool timeout''))\<rparr>"

definition ex_profile_unreachable :: Profile where
  "ex_profile_unreachable =
     ex_profile
       \<lparr>base_ledger := Some ex_unreachable_ledger,
        get_ledger_for_identifier := (\<lambda>identifier. Inr (Some ''main'', Some ex_unreachable_ledger))\<rparr>"

section \<open>Identifier derivation: properties\<close>

lemma colon_split_unique:
  "c \<notin> set x \<Longrightarrow> c \<notin> set y \<Longrightarrow> x @ c # r = y @ c # s \<Longrightarrow> x = y \<and> r = s"
proof (induction x arbitrary: y)
  case Nil
  then show ?case by (cases y) auto
next
  case (Cons a x)
  then show ?case by (cases y) auto
qed

lemma schema_id_same_issuer:
  assumes "schema_issuer_id a = schema_issuer_id b"
    and "CHR '':'' \<notin> set (schema_name a)" and "CHR '':'' \<notin> set (schema_name b)"
    and "make_schema_id a = make_schema_id b"
  shows "schema_name a = schema_name b \<and> schema_version a = schema_version b"
  using assms
    colon_split_unique [of "CHR '':''" "schema_name a" "schema_name b" "schema_version a"
      "schema_version b"]
  by (simp add: make_schema_id_def)

lemma schema_id_plain_issuer:
  assumes "CHR '':'' \<notin> set (schema_issuer_id a)" and "CHR '':'' \<notin> set (schema_issuer_id b)"
    and "make_schema_id a = make_schema_id b"
  shows "schema_issuer_id a = schema_issuer_id b"
  using assms
    colon_split_unique [of "CHR '':''" "schema_issuer_id a" "schema_issuer_id b"
      "''2:'' @ schema_name a @ '':'' @ schema_version a"
      "''2:'' @ schema_name b @ '':'' @ schema_version b"]
  by (simp add: make_schema_id_def)

text \<open>
  C6, as amended. Schemas with the same issuer, name and version get the same
  identifier. Schemas that differ in name or in version get different identifiers when
  neither name contains a colon and the issuers are equal or contain no colon: the
  identifier joins its parts with colons, so a colon inside a name moves the boundary
  between name and version.
\<close>

theorem make_schema_id_deterministic:
  "(schema_issuer_id a = schema_issuer_id b \<and> schema_name a = schema_name b
      \<and> schema_version a = schema_version b \<longrightarrow> make_schema_id a = make_schema_id b)
   \<and> ((schema_issuer_id a = schema_issuer_id b
         \<or> CHR '':'' \<notin> set (schema_issuer_id a) \<and> CHR '':'' \<notin> set (schema_issuer_id b))
        \<and> CHR '':'' \<notin> set (schema_name a) \<and> CHR '':'' \<notin> set (schema_name b)
        \<and> (schema_name a \<noteq> schema_name b \<or> schema_version a \<noteq> schema_version b)
       \<longrightarrow> make_schema_id a \<noteq> make_schema_id b)"
proof (intro conjI impI)
  assume "schema_issuer_id a = schema_issuer_id b \<and> schema_name a = schema_name b
      \<and> schema_version a = schema_version b"
  then show "make_schema_id a = make_schema_id b" by (simp add: make_schema_id_def)
next
  assume h: "(schema_issuer_id a = schema_issuer_id b
         \<or> CHR '':'' \<notin> set (schema_issuer_id a) \<and> CHR '':'' \<notin> set (schema_issuer_id b))
        \<and> CHR '':'' \<notin> set (schema_name a) \<and> CHR '':'' \<notin> set (schema_name b)
        \<and> (schema_name a \<noteq> schema_name b \<or> schema_version a \<noteq> schema_version b)"
  show "make_schema_id a \<noteq> make_schema_id b"
  proof
    assume eq: "make_schema_id a = make_schema_id b"
    from h eq have "schema_issuer_id a = schema_issuer_id b"
      using schema_id_plain_issuer by blast
    with h eq show False using schema_id_same_issuer by blast
  qed
qed

theorem make_schema_id_deterministic_witness:
  "make_schema_id ex_schema = make_schema_id (ex_schema\<lparr>schema_attr_names := []\<rparr>)
   \<and> make_schema_id ex_schema \<noteq> make_schema_id (ex_schema\<lparr>schema_version := ''1.1''\<rparr>)"
  using make_schema_id_deterministic [of ex_schema "ex_schema\<lparr>schema_attr_names := []\<rparr>"]
    make_schema_id_deterministic [of ex_schema "ex_schema\<lparr>schema_version := ''1.1''\<rparr>"]
  by (simp add: ex_schema_def)

text \<open>
  C6 as stated fails: name \<open>degree:1\<close> with version \<open>0\<close> and name \<open>degree\<close> with version
  \<open>1:0\<close>, under one issuer, differ in name and in version and both get
  \<open>did:example:issuer1:2:degree:1:0\<close>.
\<close>

theorem make_schema_id_collision:
  "schema_name (ex_schema\<lparr>schema_name := ''degree:1'', schema_version := ''0''\<rparr>)
     \<noteq> schema_name (ex_schema\<lparr>schema_name := ''degree'', schema_version := ''1:0''\<rparr>)
   \<and> schema_version (ex_schema\<lparr>schema_name := ''degree:1'', schema_version := ''0''\<rparr>)
     \<noteq> schema_version (ex_schema\<lparr>schema_name := ''degree'', schema_version := ''1:0''\<rparr>)
   \<and> make_schema_id (ex_schema\<lparr>schema_name := ''degree:1'', schema_version := ''0''\<rparr>)
     = make_schema_id (ex_schema\<lparr>schema_name := ''degree'', schema_version := ''1:0''\<rparr>)"
  by (simp add: ex_schema_def make_schema_id_def)

text \<open>
  C5. With a sequence number \<open>v\<close> under \<open>"seqNo"\<close> in the resolved schema's metadata,
  \<open>make_cred_def_id\<close> returns \<open>issuer_id:3:signature_type:str(v):tag\<close>, the signature type
  being \<open>CL\<close> and the tag \<open>default\<close> when unset (or empty). It fails exactly when the
  metadata has no \<open>"seqNo"\<close> key, and then with a registration error.
\<close>

theorem make_cred_def_id_format:
  "(\<forall>v. gs_schema_metadata schema ''seqNo'' = Some v \<longrightarrow>
      make_cred_def_id schema cred_def =
        Inr (cd_issuer_id cred_def @ '':3:''
             @ (case cd_type cred_def of None \<Rightarrow> ''CL'' | Some t \<Rightarrow> if t = [] then ''CL'' else t)
             @ '':'' @ py_str v @ '':''
             @ (case cd_tag cred_def of None \<Rightarrow> ''default''
                | Some t \<Rightarrow> if t = [] then ''default'' else t)))
   \<and> ((\<exists>e. make_cred_def_id schema cred_def = Inl e)
        \<longleftrightarrow> ''seqNo'' \<notin> dom (gs_schema_metadata schema))
   \<and> (\<forall>e. make_cred_def_id schema cred_def = Inl e \<longrightarrow>
        (\<exists>m c. e = AnonCredsRegistrationError m c))"
  by (auto simp: make_cred_def_id_def py_or_def DEFAULT_SIGNATURE_TYPE_def
      DEFAULT_CRED_DEF_TAG_def Let_def split: option.splits)

theorem make_cred_def_id_format_witness:
  "make_cred_def_id ex_get_schema_result ex_cred_def = Inr ''did:example:issuer1:3:CL:12:default''
   \<and> (\<exists>e. make_cred_def_id (ex_get_schema_result\<lparr>gs_schema_metadata := Map.empty\<rparr>) ex_cred_def
          = Inl e)"
  using make_cred_def_id_format [of ex_get_schema_result ex_cred_def]
    make_cred_def_id_format
      [of "ex_get_schema_result\<lparr>gs_schema_metadata := Map.empty\<rparr>" ex_cred_def]
  by (simp add: ex_get_schema_result_def ex_cred_def_def py_str_def str_int_def str_nat.simps
      digit_char_def)

section \<open>Reconciliation: properties\<close>

lemma JInt_mem_ints_of: "(JInt i \<in> set xs) = (i \<in> set (ints_of xs))"
  by (induction xs rule: ints_of.induct) auto

lemma revoked_loop_all_present:
  assumes "\<forall>r \<in> set recs. rec_state r = STATE_REVOKED \<longrightarrow>
             (\<exists>i. cred_rev_id r = Some i \<and> in_delta_revoked i delta = Inr True)"
  shows "revoked_loop delta recs ids n = Inr (ids @ wallet_revoked_ids recs, n)"
  using assms
proof (induction recs arbitrary: ids)
  case Nil
  then show ?case by (simp add: wallet_revoked_ids_def)
next
  case (Cons r recs)
  then show ?case by (auto simp: wallet_revoked_ids_def)
qed

text \<open>
  C2. When every wallet record marked revoked has its index in the revoked list of the
  delta the ledger returns, \<open>fix_ledger_entry\<close> returns that delta with an empty
  corrective and an empty applied transaction, and its only ledger call is the read of
  the delta: nothing is submitted, whatever \<open>apply_ledger_update\<close> is.
\<close>

theorem fix_ledger_entry_no_missed:
  assumes "base_ledger profile = Some ledger"
    and "ledger_get_revoc_reg_delta ledger (rsl_rev_reg_id rsl) = Inr delta"
    and "\<forall>r \<in> set (query_by_ids profile (rsl_rev_reg_id rsl)).
           rec_state r = STATE_REVOKED \<longrightarrow>
             (\<exists>i. cred_rev_id r = Some i \<and> in_delta_revoked i delta = Inr True)"
  shows "fix_ledger_entry profile rsl apply_ledger_update genesis =
           (Inr (delta, JObj [], JObj []), [GetRevocRegDelta (rsl_rev_reg_id rsl)])"
  using assms(1,2) revoked_loop_all_present [OF assms(3), of "[]" 0]
  by (simp add: fix_ledger_entry_def bind_def call_def lift_def ret_def)

lemma revoked_loop_listed:
  assumes "py_getitem delta ''value'' = Inr v" and "py_getitem v ''revoked'' = Inr (JList L)"
    and "\<forall>r \<in> set recs. rec_state r = STATE_REVOKED \<longrightarrow> cred_rev_id r \<noteq> None"
  shows "revoked_loop delta recs ids n =
           Inr (ids @ wallet_revoked_ids recs,
                n + length (filter (\<lambda>i. i \<notin> set (ints_of L)) (wallet_revoked_ids recs)))"
  using assms(3)
proof (induction recs arbitrary: ids n)
  case Nil
  then show ?case by (simp add: wallet_revoked_ids_def)
next
  case (Cons r recs)
  have IH: "\<And>ids n. revoked_loop delta recs ids n =
           Inr (ids @ wallet_revoked_ids recs,
                n + length (filter (\<lambda>i. i \<notin> set (ints_of L)) (wallet_revoked_ids recs)))"
    using Cons by simp
  show ?case
  proof (cases "rec_state r = STATE_REVOKED")
    case True
    then obtain i where i: "cred_rev_id r = Some i" using Cons.prems by auto
    have "in_delta_revoked i delta = Inr (i \<in> set (ints_of L))"
      using assms(1,2) by (simp add: in_delta_revoked_def JInt_mem_ints_of)
    then show ?thesis using True i IH by (simp add: wallet_revoked_ids_def)
  next
    case False
    then show ?thesis using IH by (simp add: wallet_revoked_ids_def)
  qed
qed

lemma revoked_indices_delta:
  assumes "py_getitem delta ''value'' = Inr v" and "py_getitem v ''revoked'' = Inr (JList L)"
  shows "revoked_indices delta = ints_of L"
proof -
  from assms(1) have "py_get delta ''value'' = v"
    by (cases delta) (auto split: option.splits)
  moreover from assms(2) have "py_get v ''revoked'' = JList L"
    by (cases v) (auto split: option.splits)
  ultimately show ?thesis by (simp add: revoked_indices_def)
qed

lemma ints_of_map_JInt: "ints_of (map JInt xs) = xs"
  by (induction xs) auto

lemma revoked_indices_generate:
  "set (revoked_indices (generate_ledger_rrrecovery_txn on_ledger g rid ids))
     = set ids - set (on_ledger g rid)"
  by (auto simp: revoked_indices_def generate_ledger_rrrecovery_txn_def ints_of_map_JInt)

lemma accum_check_ok:
  assumes "py_getitem delta ''value'' = Inr v"
    and "py_not (rsl_current_accumulator rsl) \<or> (\<exists>a. py_getitem v ''accum'' = Inr a)"
  shows "\<exists>k. accum_check rsl delta = Inr k"
  using assms by (auto simp: accum_check_def)

text \<open>
  C1. Let the ledger return a delta with a revoked list, let the wallet's revoked records
  carry readable indices, at least one of them not in that list, and let the ledger
  reached through the genesis transactions hold the revoked indices the delta lists. Then
  the corrective transaction of \<open>fix_ledger_entry\<close> lists exactly the wallet's revoked
  indices that the delta does not list. A dry run returns it with the delta and reads the
  ledger only; a run with \<open>apply_ledger_update\<close> that returns has submitted this
  transaction and no other.
\<close>

theorem fix_ledger_entry_republishes_missed:
  assumes led: "base_ledger profile = Some ledger"
    and del: "ledger_get_revoc_reg_delta ledger (rsl_rev_reg_id rsl) = Inr delta"
    and val: "py_getitem delta ''value'' = Inr v"
    and rev: "py_getitem v ''revoked'' = Inr (JList L)"
    and acc: "py_not (rsl_current_accumulator rsl) \<or> (\<exists>a. py_getitem v ''accum'' = Inr a)"
    and ids: "\<forall>r \<in> set (query_by_ids profile (rsl_rev_reg_id rsl)).
                rec_state r = STATE_REVOKED \<longrightarrow> cred_rev_id r \<noteq> None"
    and missed: "\<exists>i \<in> set (wallet_revoked_ids (query_by_ids profile (rsl_rev_reg_id rsl))).
                   i \<notin> set (revoked_indices delta)"
    and view: "set (ledger_revoked profile genesis (rsl_rev_reg_id rsl))
                 = set (revoked_indices delta)"
  shows "\<exists>txn.
           set (revoked_indices txn)
             = set (wallet_revoked_ids (query_by_ids profile (rsl_rev_reg_id rsl)))
                 - set (revoked_indices delta)
           \<and> fix_ledger_entry profile rsl False genesis
               = (Inr (delta, txn, JObj []), [GetRevocRegDelta (rsl_rev_reg_id rsl)])
           \<and> (\<forall>d t a calls.
                 fix_ledger_entry profile rsl True genesis = (Inr (d, t, a), calls) \<longrightarrow>
                   t = txn
                   \<and> calls = [GetRevocRegDelta (rsl_rev_reg_id rsl),
                              SendRevocRegEntry (rsl_rev_reg_id rsl) ''CL_ACCUM'' txn None])"
proof -
  let ?rid = "rsl_rev_reg_id rsl"
  let ?W = "wallet_revoked_ids (query_by_ids profile ?rid)"
  let ?txn = "generate_ledger_rrrecovery_txn (ledger_revoked profile) genesis ?rid ?W"
  have rd: "revoked_indices delta = ints_of L" using val rev by (rule revoked_indices_delta)
  have loop: "revoked_loop delta (query_by_ids profile ?rid) [] 0 =
            Inr (?W, length (filter (\<lambda>i. i \<notin> set (ints_of L)) ?W))"
    using revoked_loop_listed [OF val rev ids, of "[]" 0] by simp
  have pos: "0 < length (filter (\<lambda>i. i \<notin> set (ints_of L)) ?W)"
    using missed rd by (auto simp: filter_empty_conv)
  obtain k where k: "accum_check rsl delta = Inr k" using accum_check_ok [OF val acc] by blast
  have cover: "set (revoked_indices ?txn) = set ?W - set (revoked_indices delta)"
    using view by (simp add: revoked_indices_generate)
  have dry: "fix_ledger_entry profile rsl False genesis
               = (Inr (delta, ?txn, JObj []), [GetRevocRegDelta ?rid])"
    using led del loop pos k
    by (simp add: fix_ledger_entry_def bind_def call_def lift_def ret_def)
  have app: "\<forall>d t a calls.
                 fix_ledger_entry profile rsl True genesis = (Inr (d, t, a), calls) \<longrightarrow>
                   t = ?txn
                   \<and> calls = [GetRevocRegDelta ?rid, SendRevocRegEntry ?rid ''CL_ACCUM'' ?txn None]"
    using led del loop pos k
    by (auto simp: fix_ledger_entry_def bind_def call_def lift_def ret_def raise_def Let_def
        split: option.splits sum.splits prod.splits)
  from cover dry app show ?thesis by blast
qed


theorem fix_ledger_entry_no_missed_witness:
  "fix_ledger_entry ex_profile_in_sync ex_rev_status_list True ''genesis'' =
     (Inr (ex_delta [3, 7], JObj [], JObj []), [GetRevocRegDelta ex_rev_reg_id])"
proof -
  have 1: "base_ledger ex_profile_in_sync = 
    Some (ex_ledger\<lparr>ledger_get_revoc_reg_delta := (\<lambda>rev_reg_id. Inr (ex_delta [3, 7]))\<rparr>)"
    by (simp add: ex_profile_in_sync_def)
  have 2: "ledger_get_revoc_reg_delta (ex_ledger\<lparr>ledger_get_revoc_reg_delta := (\<lambda>rev_reg_id. Inr (ex_delta [3, 7]))\<rparr>) (rsl_rev_reg_id ex_rev_status_list) = Inr (ex_delta [3, 7])"
    by simp
  have 3: "\<forall>r \<in> set (query_by_ids ex_profile_in_sync (rsl_rev_reg_id ex_rev_status_list)).
           rec_state r = STATE_REVOKED \<longrightarrow>
             (\<exists>i. cred_rev_id r = Some i \<and> in_delta_revoked i (ex_delta [3, 7]) = Inr True)"
    by (simp add: ex_profile_in_sync_def ex_profile_def STATE_REVOKED_def in_delta_revoked_def
        ex_delta_def)
  show ?thesis
    using fix_ledger_entry_no_missed [OF 1 2 3, of True "''genesis''"]
    by (simp add: ex_rev_status_list_def)
qed

theorem fix_ledger_entry_republishes_missed_witness:
  "\<exists>txn. set (revoked_indices txn) = {7}
     \<and> fix_ledger_entry ex_profile ex_rev_status_list False ''genesis''
         = (Inr (ex_delta [3], txn, JObj []), [GetRevocRegDelta ex_rev_reg_id])"
proof -
  have 1: "base_ledger ex_profile = Some ex_ledger" by (simp add: ex_profile_def)
  have 2: "ledger_get_revoc_reg_delta ex_ledger (rsl_rev_reg_id ex_rev_status_list)
             = Inr (ex_delta [3])"
    by (simp add: ex_ledger_def)
  have 3: "py_getitem (ex_delta [3]) ''value''
             = Inr (JObj [(''accum'', JStr ''21 0A7B''), (''revoked'', JList [JInt 3])])"
    by (simp add: ex_delta_def)
  have 4: "py_getitem (JObj [(''accum'', JStr ''21 0A7B''), (''revoked'', JList [JInt 3])])
             ''revoked'' = Inr (JList [JInt 3])"
    by simp
  have 5: "py_not (rsl_current_accumulator ex_rev_status_list)
           \<or> (\<exists>a. py_getitem (JObj [(''accum'', JStr ''21 0A7B''), (''revoked'', JList [JInt 3])])
                  ''accum'' = Inr a)"
    by simp
  have 6: "\<forall>r \<in> set (query_by_ids ex_profile (rsl_rev_reg_id ex_rev_status_list)).
             rec_state r = STATE_REVOKED \<longrightarrow> cred_rev_id r \<noteq> None"
    by (simp add: ex_profile_def)
  have w: "wallet_revoked_ids (query_by_ids ex_profile r) = [3, 7]" for r
    by (simp add: ex_profile_def wallet_revoked_ids_def STATE_REVOKED_def)
  have d: "revoked_indices (ex_delta [3]) = [3]"
    by (simp add: revoked_indices_def ex_delta_def)
  have 7: "\<exists>i \<in> set (wallet_revoked_ids
                      (query_by_ids ex_profile (rsl_rev_reg_id ex_rev_status_list))).
             i \<notin> set (revoked_indices (ex_delta [3]))"
    by (simp add: w d)
  have 8: "set (ledger_revoked ex_profile ''genesis'' (rsl_rev_reg_id ex_rev_status_list))
             = set (revoked_indices (ex_delta [3]))"
    by (simp add: d ex_profile_def)
  have s: "set [3, 7] - set [3] = {7::int}" by auto
  have rid: "rsl_rev_reg_id ex_rev_status_list = ex_rev_reg_id"
    by (simp add: ex_rev_status_list_def)
  from fix_ledger_entry_republishes_missed [OF 1 2 3 4 5 6 7 8]
  obtain txn where
    "set (revoked_indices txn) = set [3, 7] - set [3]"
    "fix_ledger_entry ex_profile ex_rev_status_list False ''genesis''
       = (Inr (ex_delta [3], txn, JObj []), [GetRevocRegDelta ex_rev_reg_id])"
    unfolding w d rid by blast
  then show ?thesis unfolding s by blast
qed

section \<open>Status list registration: properties\<close>

text \<open>
  C3, as amended. Let the ledger reject the status list's entry with a
  \<open>LedgerTransactionError\<close>. If its \<open>roll_up\<close> contains \<open>InvalidClientRequest\<close>, the
  call makes that one write and then one \<open>fix_ledger_entry\<close> call with
  \<open>apply_ledger_update\<close> true, and nothing else: an exception of the repair leaves the call
  unchanged, and a repair that returns an applied transaction with
  \<open>["txnMetadata"]["seqNo"]\<close> gives a \<open>FINISHED\<close> result with that sequence number. If the
  \<open>roll_up\<close> does not contain \<open>InvalidClientRequest\<close>, the call fails after the one write:
  with the TAA registration error when it contains \<open>InvalidClientTaaAcceptanceError\<close>,
  with the unknown-issue registration error otherwise.
\<close>

theorem register_revocation_status_list_rejected:
  assumes led: "base_ledger profile = Some ledger"
    and rej: "ledger_send_revoc_reg_entry ledger (rsl_rev_reg_id rsl) (rrd_type rev_reg_def)
                (accum_entry rsl) (Some (rsl_issuer_id rsl))
              = Inl (LedgerTransactionError roll_up)"
  shows
    "(py_in_str ''InvalidClientRequest'' roll_up \<longrightarrow>
        snd (register_revocation_status_list profile rev_reg_def rsl)
          = SendRevocRegEntry (rsl_rev_reg_id rsl) (rrd_type rev_reg_def) (accum_entry rsl)
              (Some (rsl_issuer_id rsl))
            # snd (fix_ledger_entry profile rsl True (pool_genesis_txns ledger))
        \<and> (\<forall>e. fst (fix_ledger_entry profile rsl True (pool_genesis_txns ledger)) = Inl e \<longrightarrow>
              fst (register_revocation_status_list profile rev_reg_def rsl) = Inl e)
        \<and> (\<forall>d t res m s.
              fst (fix_ledger_entry profile rsl True (pool_genesis_txns ledger)) = Inr (d, t, res)
              \<and> py_getitem res ''txnMetadata'' = Inr m \<and> py_getitem m ''seqNo'' = Inr s \<longrightarrow>
              fst (register_revocation_status_list profile rev_reg_def rsl)
                = Inr (RevStatusListResult None (RevStatusListState STATE_FINISHED rsl)
                         Map.empty [''seqNo'' \<mapsto> s])))
     \<and> (\<not> py_in_str ''InvalidClientRequest'' roll_up
          \<and> py_in_str ''InvalidClientTaaAcceptanceError'' roll_up \<longrightarrow>
        register_revocation_status_list profile rev_reg_def rsl
          = (Inl (AnonCredsRegistrationError ''Ledger update failed due to TAA Issue''
                    (Some (LedgerTransactionError roll_up))),
             [SendRevocRegEntry (rsl_rev_reg_id rsl) (rrd_type rev_reg_def) (accum_entry rsl)
                (Some (rsl_issuer_id rsl))]))
     \<and> (\<not> py_in_str ''InvalidClientRequest'' roll_up
          \<and> \<not> py_in_str ''InvalidClientTaaAcceptanceError'' roll_up \<longrightarrow>
        register_revocation_status_list profile rev_reg_def rsl
          = (Inl (AnonCredsRegistrationError ''Ledger update failed due to unknown issue''
                    (Some (LedgerTransactionError roll_up))),
             [SendRevocRegEntry (rsl_rev_reg_id rsl) (rrd_type rev_reg_def) (accum_entry rsl)
                (Some (rsl_issuer_id rsl))]))"
proof (intro conjI impI allI)
  let ?fix = "fix_ledger_entry profile rsl True (pool_genesis_txns ledger)"
  assume icr: "py_in_str ''InvalidClientRequest'' roll_up"
  show "snd (register_revocation_status_list profile rev_reg_def rsl)
          = SendRevocRegEntry (rsl_rev_reg_id rsl) (rrd_type rev_reg_def) (accum_entry rsl)
              (Some (rsl_issuer_id rsl)) # snd ?fix"
    using led rej icr
    by (cases ?fix)
      (auto simp: register_revocation_status_list_def bind_def try_except_def call_def
        lift_def ret_def Let_def split: sum.splits prod.splits)
  show "fst (register_revocation_status_list profile rev_reg_def rsl) = Inl e"
    if "fst ?fix = Inl e" for e
    using led rej icr that
    by (cases ?fix)
      (auto simp: register_revocation_status_list_def bind_def try_except_def call_def
        lift_def ret_def Let_def split: sum.splits prod.splits)
  show "fst (register_revocation_status_list profile rev_reg_def rsl)
          = Inr (RevStatusListResult None (RevStatusListState STATE_FINISHED rsl)
                   Map.empty [''seqNo'' \<mapsto> s])"
    if "fst ?fix = Inr (d, t, res) \<and> py_getitem res ''txnMetadata'' = Inr m
          \<and> py_getitem m ''seqNo'' = Inr s" for d t res m s
    using led rej icr that
    by (cases ?fix)
      (auto simp: register_revocation_status_list_def bind_def try_except_def call_def
        lift_def ret_def Let_def split: sum.splits prod.splits)
next
  assume "\<not> py_in_str ''InvalidClientRequest'' roll_up
          \<and> py_in_str ''InvalidClientTaaAcceptanceError'' roll_up"
  then show "register_revocation_status_list profile rev_reg_def rsl
          = (Inl (AnonCredsRegistrationError ''Ledger update failed due to TAA Issue''
                    (Some (LedgerTransactionError roll_up))),
             [SendRevocRegEntry (rsl_rev_reg_id rsl) (rrd_type rev_reg_def) (accum_entry rsl)
                (Some (rsl_issuer_id rsl))])"
    using led rej
    by (simp add: register_revocation_status_list_def bind_def try_except_def call_def
        raise_def Let_def)
next
  assume "\<not> py_in_str ''InvalidClientRequest'' roll_up
          \<and> \<not> py_in_str ''InvalidClientTaaAcceptanceError'' roll_up"
  then show "register_revocation_status_list profile rev_reg_def rsl
          = (Inl (AnonCredsRegistrationError ''Ledger update failed due to unknown issue''
                    (Some (LedgerTransactionError roll_up))),
             [SendRevocRegEntry (rsl_rev_reg_id rsl) (rrd_type rev_reg_def) (accum_entry rsl)
                (Some (rsl_issuer_id rsl))])"
    using led rej
    by (simp add: register_revocation_status_list_def bind_def try_except_def call_def
        raise_def Let_def)
qed


lemma fix_ex_repairable:
  "fst (fix_ledger_entry ex_profile_repairable ex_rev_status_list True ''genesis'')
     = Inr (ex_delta [3],
            JObj [(''ver'', JStr ''1.0''), (''value'', JObj [(''revoked'', JList [JInt 7])])],
            JObj [(''txnMetadata'', JObj [(''seqNo'', JInt 15)])])"
  by (simp add: fix_ledger_entry_def ex_profile_repairable_def ex_profile_def
      ex_repairable_ledger_def ex_ledger_def ex_rev_status_list_def ex_delta_def ex_reply_def
      bind_def call_def lift_def ret_def STATE_REVOKED_def in_delta_revoked_def
      accum_check_def py_not_def generate_ledger_rrrecovery_txn_def Let_def)

theorem register_revocation_status_list_rejected_witness:
  "fst (register_revocation_status_list ex_profile_repairable ex_rev_reg_def ex_rev_status_list)
     = Inr (RevStatusListResult None (RevStatusListState STATE_FINISHED ex_rev_status_list)
              Map.empty [''seqNo'' \<mapsto> JInt 15])"
proof -
  have led: "base_ledger ex_profile_repairable = Some ex_repairable_ledger"
    by (simp add: ex_profile_repairable_def)
  have rej: "ledger_send_revoc_reg_entry ex_repairable_ledger (rsl_rev_reg_id ex_rev_status_list)
               (rrd_type ex_rev_reg_def) (accum_entry ex_rev_status_list)
               (Some (rsl_issuer_id ex_rev_status_list))
             = Inl (LedgerTransactionError ex_roll_up)"
    by (simp add: ex_repairable_ledger_def)
  have icr: "py_in_str ''InvalidClientRequest'' ex_roll_up"
    by (simp add: ex_roll_up_def)
  have gen: "pool_genesis_txns ex_repairable_ledger = ''genesis''"
    by (simp add: ex_repairable_ledger_def ex_ledger_def)
  show ?thesis
    using register_revocation_status_list_rejected [OF led rej] icr fix_ex_repairable
    by (simp add: gen)
qed

text \<open>
  C3 as stated fails: when the ledger rejects the corrective entry as well, the call does
  not return a \<open>FINISHED\<close> result. The second rejection leaves the registry as the
  ledger's own \<open>LedgerTransactionError\<close>, after two writes.
\<close>

theorem register_revocation_status_list_repair_fails:
  "py_in_str ''InvalidClientRequest'' ex_roll_up
   \<and> fst (register_revocation_status_list ex_profile_rejecting ex_rev_reg_def ex_rev_status_list)
       = Inl (LedgerTransactionError ex_roll_up)
   \<and> length (filter is_send
        (snd (register_revocation_status_list ex_profile_rejecting ex_rev_reg_def
                ex_rev_status_list))) = 2"
  by (simp add: register_revocation_status_list_def fix_ledger_entry_def
      ex_profile_rejecting_def ex_profile_def ex_roll_up_def accum_entry_def
      ex_rejecting_ledger_def ex_ledger_def ex_rev_status_list_def ex_delta_def ex_reply_def
      ex_rev_reg_def_def try_except_def
      bind_def call_def lift_def ret_def STATE_REVOKED_def in_delta_revoked_def
      accum_check_def py_not_def generate_ledger_rrrecovery_txn_def Let_def)

section \<open>Already-existing objects: properties\<close>

text \<open>
  C4, as amended. When the ledger answers the write of a schema with
  \<open>LedgerObjectAlreadyExistsError\<close>, \<open>register_schema\<close> fails with
  \<open>AnonCredsSchemaAlreadyExists\<close> carrying the ledger's identifier and the schema rebuilt
  from the ledger's copy, not the caller's. When the ledger answers the write of a
  credential definition so, \<open>register_credential_definition\<close> fails with
  \<open>AnonCredsObjectAlreadyExists\<close> carrying a message only (which says whether the wallet
  holds the definition) and the ledger's error as its cause; its \<open>obj\<close> is \<open>None\<close>.
  Neither is reported as success.
\<close>

theorem already_exists_outcomes:
  "(\<forall>ledger message oid copy.
      base_ledger profile = Some ledger
      \<and> ledger_send_schema ledger (make_schema_id schema)
           \<lparr>is_ver = ''1.0'', is_id = make_schema_id schema, is_name = schema_name schema,
            is_version = schema_version schema, is_attrNames = schema_attr_names schema,
            is_seqNo = None\<rparr>
          = Inl (LedgerObjectAlreadyExistsError message (Some (SchemaObj oid copy)))
      \<longrightarrow>
      fst (register_schema profile schema)
        = Inl (AnonCredsSchemaAlreadyExists message
                 (oid,
                  \<lparr>schema_issuer_id = split_first (is_id copy) CHR '':'',
                   schema_name = is_name copy, schema_version = is_version copy,
                   schema_attr_names = is_attrNames copy\<rparr>)))
   \<and> (\<forall>ledger message obj cid in_wallet.
        base_ledger profile = Some ledger
        \<and> make_cred_def_id resolved cred_def = Inr cid
        \<and> credential_definition_in_wallet profile cid = Inr in_wallet
        \<and> (in_wallet \<longrightarrow> (\<exists>found calls. get_credential_definition profile cid = (Inr found, calls)))
        \<and> (\<forall>d. ledger_send_credential_definition ledger (cd_schema_id cred_def) cid d
                  (cd_issuer_id cred_def)
                = Inl (LedgerObjectAlreadyExistsError message obj))
        \<longrightarrow>
        fst (register_credential_definition profile resolved cred_def options)
          = Inl (AnonCredsObjectAlreadyExists
                   (if in_wallet
                    then ''Credential definition with id '' @ cid
                           @ '' already exists in wallet and on ledger.''
                    else ''Credential definition '' @ cid @ '' is on ledger but not in wallet ''
                           @ profile_name profile)
                   None (Some (LedgerObjectAlreadyExistsError message obj))))"
proof (intro conjI allI impI)
  fix ledger message oid copy
  assume "base_ledger profile = Some ledger
      \<and> ledger_send_schema ledger (make_schema_id schema)
           \<lparr>is_ver = ''1.0'', is_id = make_schema_id schema, is_name = schema_name schema,
            is_version = schema_version schema, is_attrNames = schema_attr_names schema,
            is_seqNo = None\<rparr>
          = Inl (LedgerObjectAlreadyExistsError message (Some (SchemaObj oid copy)))"
  then show "fst (register_schema profile schema)
        = Inl (AnonCredsSchemaAlreadyExists message
                 (oid,
                  \<lparr>schema_issuer_id = split_first (is_id copy) CHR '':'',
                   schema_name = is_name copy, schema_version = is_version copy,
                   schema_attr_names = is_attrNames copy\<rparr>))"
    by (simp add: register_schema_def Let_def bind_def try_except_def call_def raise_def)
next
  fix ledger message obj cid in_wallet
  assume h: "base_ledger profile = Some ledger
        \<and> make_cred_def_id resolved cred_def = Inr cid
        \<and> credential_definition_in_wallet profile cid = Inr in_wallet
        \<and> (in_wallet \<longrightarrow> (\<exists>found calls. get_credential_definition profile cid = (Inr found, calls)))
        \<and> (\<forall>d. ledger_send_credential_definition ledger (cd_schema_id cred_def) cid d
                  (cd_issuer_id cred_def)
                = Inl (LedgerObjectAlreadyExistsError message obj))"
  then have seq: "gs_schema_metadata resolved ''seqNo'' \<noteq> None"
    by (auto simp: make_cred_def_id_def Let_def split: option.splits)
  show "fst (register_credential_definition profile resolved cred_def options)
          = Inl (AnonCredsObjectAlreadyExists
                   (if in_wallet
                    then ''Credential definition with id '' @ cid
                           @ '' already exists in wallet and on ledger.''
                    else ''Credential definition '' @ cid @ '' is on ledger but not in wallet ''
                           @ profile_name profile)
                   None (Some (LedgerObjectAlreadyExistsError message obj)))"
  proof (cases in_wallet)
    case True
    with h obtain found calls where "get_credential_definition profile cid = (Inr found, calls)"
      by blast
    with h seq True show ?thesis
      by (auto simp: register_credential_definition_def Let_def bind_def try_except_def
          call_def raise_def lift_def ret_def split: option.splits)
  next
    case False
    with h seq show ?thesis
      by (auto simp: register_credential_definition_def Let_def bind_def try_except_def
          call_def raise_def lift_def ret_def split: option.splits)
  qed
qed

theorem already_exists_outcomes_witness:
  "fst (register_schema ex_profile_with_objects ex_caller_schema)
     = Inl (AnonCredsSchemaAlreadyExists ''Schema already exists on ledger''
              (''WgWxqztrNooG92RXvxSTWv:2:degree:1.0'',
               \<lparr>schema_issuer_id = ''WgWxqztrNooG92RXvxSTWv'', schema_name = ''degree'',
                schema_version = ''1.0'', schema_attr_names = [''name'']\<rparr>))
   \<and> (\<exists>e. fst (register_credential_definition ex_profile_with_objects ex_get_schema_result
                 ex_cred_def None) = Inl e)"
proof -
  have led: "base_ledger ex_profile_with_objects = Some ex_ledger_with_objects"
    by (simp add: ex_profile_with_objects_def)
  have send: "ledger_send_schema ex_ledger_with_objects (make_schema_id ex_caller_schema)
           \<lparr>is_ver = ''1.0'', is_id = make_schema_id ex_caller_schema,
            is_name = schema_name ex_caller_schema,
            is_version = schema_version ex_caller_schema,
            is_attrNames = schema_attr_names ex_caller_schema, is_seqNo = None\<rparr>
          = Inl (LedgerObjectAlreadyExistsError ''Schema already exists on ledger''
                   (Some (SchemaObj ''WgWxqztrNooG92RXvxSTWv:2:degree:1.0'' ex_ledger_schema)))"
    by (simp add: ex_ledger_with_objects_def make_schema_id_def ex_caller_schema_def)
  have mk: "make_cred_def_id ex_get_schema_result ex_cred_def
              = Inr ''did:example:issuer1:3:CL:12:default''"
    by (simp add: make_cred_def_id_def ex_get_schema_result_def ex_cred_def_def py_or_def
        DEFAULT_SIGNATURE_TYPE_def DEFAULT_CRED_DEF_TAG_def py_str_def str_int_def
        str_nat.simps digit_char_def)
  have wal: "credential_definition_in_wallet ex_profile_with_objects
               ''did:example:issuer1:3:CL:12:default'' = Inr False"
    by (simp add: ex_profile_with_objects_def ex_profile_def)
  have cd: "\<forall>d. ledger_send_credential_definition ex_ledger_with_objects
                  (cd_schema_id ex_cred_def) ''did:example:issuer1:3:CL:12:default'' d
                  (cd_issuer_id ex_cred_def)
                = Inl (LedgerObjectAlreadyExistsError
                         ''Credential definition already exists on ledger''
                         (Some (CredDefObj ''did:example:issuer1:3:CL:12:default''
                                  ex_ledger_cred_def)))"
    by (simp add: ex_ledger_with_objects_def)
  note inst = already_exists_outcomes
      [of ex_profile_with_objects ex_caller_schema ex_get_schema_result ex_cred_def None]
  from inst led send
  have "fst (register_schema ex_profile_with_objects ex_caller_schema)
     = Inl (AnonCredsSchemaAlreadyExists ''Schema already exists on ledger''
              (''WgWxqztrNooG92RXvxSTWv:2:degree:1.0'',
               \<lparr>schema_issuer_id = split_first (is_id ex_ledger_schema) CHR '':'',
                schema_name = is_name ex_ledger_schema,
                schema_version = is_version ex_ledger_schema,
                schema_attr_names = is_attrNames ex_ledger_schema\<rparr>))"
    by blast
  then have a: "fst (register_schema ex_profile_with_objects ex_caller_schema)
     = Inl (AnonCredsSchemaAlreadyExists ''Schema already exists on ledger''
              (''WgWxqztrNooG92RXvxSTWv:2:degree:1.0'',
               \<lparr>schema_issuer_id = ''WgWxqztrNooG92RXvxSTWv'', schema_name = ''degree'',
                schema_version = ''1.0'', schema_attr_names = [''name'']\<rparr>))"
    by (simp add: ex_ledger_schema_def split_first_def)
  from wal have wal': "credential_definition_in_wallet ex_profile_with_objects
               ''did:example:issuer1:3:CL:12:default'' = Inr False
        \<and> (False \<longrightarrow> (\<exists>found calls. get_credential_definition ex_profile_with_objects
               ''did:example:issuer1:3:CL:12:default'' = (Inr found, calls)))"
    by simp
  from inst led mk wal' cd
  have b: "\<exists>e. fst (register_credential_definition ex_profile_with_objects ex_get_schema_result
                 ex_cred_def None) = Inl e"
    by blast
  from a b show ?thesis by blast
qed

text \<open>
  C4 as stated fails for credential definitions: the ledger hands back its copy, and the
  error \<open>register_credential_definition\<close> raises carries no artifact.
\<close>

theorem register_credential_definition_exists_no_artifact:
  "fst (register_credential_definition ex_profile_with_objects ex_get_schema_result ex_cred_def
          None)
     = Inl (AnonCredsObjectAlreadyExists
              ''Credential definition did:example:issuer1:3:CL:12:default is on ledger but not in wallet issuer''
              None
              (Some (LedgerObjectAlreadyExistsError
                       ''Credential definition already exists on ledger''
                       (Some (CredDefObj ''did:example:issuer1:3:CL:12:default''
                                ex_ledger_cred_def)))))"
  by (simp add: register_credential_definition_def ex_profile_with_objects_def ex_profile_def
      ex_ledger_with_objects_def ex_ledger_def
      make_cred_def_id_def ex_get_schema_result_def ex_cred_def_def py_or_def
      DEFAULT_SIGNATURE_TYPE_def DEFAULT_CRED_DEF_TAG_def py_str_def str_int_def
      str_nat.simps digit_char_def Let_def bind_def try_except_def
      call_def raise_def lift_def ret_def)

section \<open>Revocation registry definitions: properties\<close>

lemma ex_id: "make_rev_reg_def_id ex_rev_reg_def = ex_rev_reg_id"
  by (simp add: make_rev_reg_def_id_def ex_rev_reg_def_def ex_rev_reg_id_def)

lemma ex_parse_ok:
  "ex_urlparse (''https://tails.example/'' @ ex_rev_reg_id)
     = Inr \<lparr>scheme = ''https'', netloc = ''tails.example'', path = ''/'' @ ex_rev_reg_id\<rparr>"
  by (simp add: ex_urlparse_def ex_rev_reg_id_def Let_def)

lemma ex_parse_bad:
  "ex_urlparse (''tails.example/'' @ ex_rev_reg_id)
     = Inr \<lparr>scheme = [], netloc = [], path = ''tails.example/'' @ ex_rev_reg_id\<rparr>"
  by (simp add: ex_urlparse_def ex_rev_reg_id_def Let_def)

text \<open>
  C7. Without a tails server base URL in the settings (absent or empty),
  \<open>register_revocation_registry_definition\<close> fails with a registration error and has made
  no ledger call. With one, the artifact's \<open>tails_location\<close> becomes the base URL stripped
  of trailing slashes, then \<open>/\<close>, then the derived identifier; when that URL parses
  without a scheme, a host or a path the call fails (with \<open>RevocationError\<close>) having made
  no ledger call; and a result that is returned holds the artifact with that location.
\<close>

theorem register_revocation_registry_definition_tails:
  "(py_not (settings profile ''tails_server_base_url'') \<longrightarrow>
      fst (register_revocation_registry_definition urlparse profile rrd)
        = (Inl (AnonCredsRegistrationError ''tails_server_base_url not configured'' None), []))
   \<and> (\<forall>base.
        settings profile ''tails_server_base_url'' = Some base \<and> base \<noteq> [] \<longrightarrow>
        tails_location (rrd_value (snd (register_revocation_registry_definition urlparse profile rrd)))
          = rstrip base ''/'' @ ''/'' @ make_rev_reg_def_id rrd
        \<and> (\<forall>parsed.
              urlparse (rstrip base ''/'' @ ''/'' @ make_rev_reg_def_id rrd) = Inr parsed
              \<and> (scheme parsed = [] \<or> netloc parsed = [] \<or> path parsed = []) \<longrightarrow>
              fst (register_revocation_registry_definition urlparse profile rrd)
                = (Inl (RevocationError
                          (''URI '' @ (rstrip base ''/'' @ ''/'' @ make_rev_reg_def_id rrd)
                             @ '' is not a valid URL'')), []))
        \<and> (\<forall>r calls.
              fst (register_revocation_registry_definition urlparse profile rrd) = (Inr r, calls)
              \<longrightarrow>
              tails_location
                (rrd_value
                   (rs_revocation_registry_definition
                      (rr_revocation_registry_definition_state r)))
                = rstrip base ''/'' @ ''/'' @ make_rev_reg_def_id rrd))"
proof (intro conjI allI impI)
  assume "py_not (settings profile ''tails_server_base_url'')"
  then show "fst (register_revocation_registry_definition urlparse profile rrd)
        = (Inl (AnonCredsRegistrationError ''tails_server_base_url not configured'' None), [])"
    by (auto simp: register_revocation_registry_definition_def py_not_def raise_def Let_def
        split: option.splits)
next
  fix base
  assume b: "settings profile ''tails_server_base_url'' = Some base \<and> base \<noteq> []"
  then show "tails_location (rrd_value (snd (register_revocation_registry_definition urlparse profile rrd)))
          = rstrip base ''/'' @ ''/'' @ make_rev_reg_def_id rrd"
    by (simp add: register_revocation_registry_definition_def Let_def)
  show "fst (register_revocation_registry_definition urlparse profile rrd)
                = (Inl (RevocationError
                          (''URI '' @ (rstrip base ''/'' @ ''/'' @ make_rev_reg_def_id rrd)
                             @ '' is not a valid URL'')), [])"
    if "urlparse (rstrip base ''/'' @ ''/'' @ make_rev_reg_def_id rrd) = Inr parsed
              \<and> (scheme parsed = [] \<or> netloc parsed = [] \<or> path parsed = [])" for parsed
    using b that
    by (auto simp: register_revocation_registry_definition_def Let_def check_url_def bind_def
        try_except_def lift_def raise_def)
  show "tails_location
                (rrd_value
                   (rs_revocation_registry_definition
                      (rr_revocation_registry_definition_state r)))
                = rstrip base ''/'' @ ''/'' @ make_rev_reg_def_id rrd"
    if "fst (register_revocation_registry_definition urlparse profile rrd) = (Inr r, calls)"
    for r calls
    using b that
    by (auto simp: register_revocation_registry_definition_def Let_def bind_def ret_def
        split: sum.splits prod.splits)
qed

text \<open>
  C10. Once the tails server base URL is read from the settings, the artifact the caller
  passed is left with \<open>tails_location\<close> overwritten by the computed URL and otherwise
  unchanged, whatever the outcome of the call and whatever location it held before; when
  the URL check fails, no ledger call has been made. The location the caller supplied is
  never used: every ledger call the operation makes submits a definition that holds the
  computed URL as \<open>tailsLocation\<close>, and every result returned holds the overwritten
  artifact.
\<close>

theorem register_revocation_registry_definition_keeps_overwrite:
  "(\<forall>base.
      settings profile ''tails_server_base_url'' = Some base \<and> base \<noteq> [] \<longrightarrow>
      snd (register_revocation_registry_definition urlparse profile rrd)
        = rrd\<lparr>rrd_value := (rrd_value rrd)
                \<lparr>tails_location := rstrip base ''/'' @ ''/'' @ make_rev_reg_def_id rrd\<rparr>\<rparr>
      \<and> (\<forall>e. check_url urlparse (rstrip base ''/'' @ ''/'' @ make_rev_reg_def_id rrd) = Inl e
            \<longrightarrow> snd (fst (register_revocation_registry_definition urlparse profile rrd)) = []))
   \<and> (\<forall>c \<in> set (snd (fst (register_revocation_registry_definition urlparse profile rrd))).
        \<exists>d base.
          settings profile ''tails_server_base_url'' = Some base \<and> base \<noteq> []
          \<and> c = SendRevocRegDef d (rrd_issuer_id rrd)
          \<and> py_get (py_get d ''value'') ''tailsLocation''
              = JStr (rstrip base ''/'' @ ''/'' @ make_rev_reg_def_id rrd))
   \<and> (\<forall>r calls.
        fst (register_revocation_registry_definition urlparse profile rrd) = (Inr r, calls)
        \<longrightarrow>
        (\<exists>base.
           settings profile ''tails_server_base_url'' = Some base \<and> base \<noteq> []
           \<and> rs_revocation_registry_definition (rr_revocation_registry_definition_state r)
               = rrd\<lparr>rrd_value := (rrd_value rrd)
                       \<lparr>tails_location :=
                          rstrip base ''/'' @ ''/'' @ make_rev_reg_def_id rrd\<rparr>\<rparr>))"
proof (intro conjI allI impI ballI)
  fix base
  assume b: "settings profile ''tails_server_base_url'' = Some base \<and> base \<noteq> []"
  then show "snd (register_revocation_registry_definition urlparse profile rrd)
        = rrd\<lparr>rrd_value := (rrd_value rrd)
                \<lparr>tails_location := rstrip base ''/'' @ ''/'' @ make_rev_reg_def_id rrd\<rparr>\<rparr>"
    by (simp add: register_revocation_registry_definition_def Let_def)
  show "snd (fst (register_revocation_registry_definition urlparse profile rrd)) = []"
    if "check_url urlparse (rstrip base ''/'' @ ''/'' @ make_rev_reg_def_id rrd) = Inl e" for e
    using b that
    by (auto simp: register_revocation_registry_definition_def Let_def bind_def try_except_def
        lift_def raise_def split: if_splits)
next
  fix c
  assume "c \<in> set (snd (fst (register_revocation_registry_definition urlparse profile rrd)))"
  then show "\<exists>d base.
          settings profile ''tails_server_base_url'' = Some base \<and> base \<noteq> []
          \<and> c = SendRevocRegDef d (rrd_issuer_id rrd)
          \<and> py_get (py_get d ''value'') ''tailsLocation''
              = JStr (rstrip base ''/'' @ ''/'' @ make_rev_reg_def_id rrd)"
    by (auto simp: register_revocation_registry_definition_def Let_def bind_def try_except_def
        lift_def raise_def ret_def call_def
        split: sum.splits prod.splits option.splits if_splits)
next
  fix r calls
  assume "fst (register_revocation_registry_definition urlparse profile rrd) = (Inr r, calls)"
  then show "\<exists>base.
           settings profile ''tails_server_base_url'' = Some base \<and> base \<noteq> []
           \<and> rs_revocation_registry_definition (rr_revocation_registry_definition_state r)
               = rrd\<lparr>rrd_value := (rrd_value rrd)
                       \<lparr>tails_location :=
                          rstrip base ''/'' @ ''/'' @ make_rev_reg_def_id rrd\<rparr>\<rparr>"
    by (auto simp: register_revocation_registry_definition_def Let_def bind_def ret_def
        raise_def split: sum.splits prod.splits option.splits if_splits)
qed

theorem register_revocation_registry_definition_tails_witness:
  "fst (register_revocation_registry_definition ex_urlparse ex_profile_no_tails ex_rev_reg_def)
     = (Inl (AnonCredsRegistrationError ''tails_server_base_url not configured'' None), [])
   \<and> tails_location
       (rrd_value (snd (register_revocation_registry_definition ex_urlparse ex_profile
                          ex_rev_reg_def)))
     = ''https://tails.example/'' @ ex_rev_reg_id
   \<and> fst (register_revocation_registry_definition ex_urlparse ex_profile_bad_tails
            ex_rev_reg_def)
     = (Inl (RevocationError
               (''URI '' @ (''tails.example/'' @ ex_rev_reg_id) @ '' is not a valid URL'')), [])"
proof -
  have none: "py_not (settings ex_profile_no_tails ''tails_server_base_url'')"
    by (simp add: ex_profile_no_tails_def py_not_def)
  have good: "settings ex_profile ''tails_server_base_url'' = Some ''https://tails.example/''
              \<and> ''https://tails.example/'' \<noteq> []"
    by (simp add: ex_profile_def)
  have bad: "settings ex_profile_bad_tails ''tails_server_base_url'' = Some ''tails.example''
             \<and> ''tails.example'' \<noteq> []"
    by (simp add: ex_profile_bad_tails_def)
  have strip1: "rstrip ''https://tails.example/'' ''/'' = ''https://tails.example''"
    by (simp add: rstrip_def)
  have strip2: "rstrip ''tails.example'' ''/'' = ''tails.example''"
    by (simp add: rstrip_def)
  have parsed: "ex_urlparse (rstrip ''tails.example'' ''/'' @ ''/''
                   @ make_rev_reg_def_id ex_rev_reg_def)
                  = Inr \<lparr>scheme = [], netloc = [], path = ''tails.example/'' @ ex_rev_reg_id\<rparr>
                \<and> (scheme \<lparr>scheme = [], netloc = [], path = ''tails.example/'' @ ex_rev_reg_id\<rparr>
                      = []
                    \<or> netloc \<lparr>scheme = [], netloc = [], path = ''tails.example/'' @ ex_rev_reg_id\<rparr>
                      = []
                    \<or> path \<lparr>scheme = [], netloc = [], path = ''tails.example/'' @ ex_rev_reg_id\<rparr>
                      = [])"
    using ex_parse_bad by (simp add: strip2 ex_id)
  from register_revocation_registry_definition_tails
         [of ex_profile_no_tails ex_urlparse ex_rev_reg_def] none
  have a: "fst (register_revocation_registry_definition ex_urlparse ex_profile_no_tails
                  ex_rev_reg_def)
     = (Inl (AnonCredsRegistrationError ''tails_server_base_url not configured'' None), [])"
    by blast
  from register_revocation_registry_definition_tails
         [of ex_profile ex_urlparse ex_rev_reg_def] good
  have "tails_location
       (rrd_value (snd (register_revocation_registry_definition ex_urlparse ex_profile
                          ex_rev_reg_def)))
     = rstrip ''https://tails.example/'' ''/'' @ ''/'' @ make_rev_reg_def_id ex_rev_reg_def"
    by blast
  then have b: "tails_location
       (rrd_value (snd (register_revocation_registry_definition ex_urlparse ex_profile
                          ex_rev_reg_def)))
     = ''https://tails.example/'' @ ex_rev_reg_id"
    by (simp add: strip1 ex_id)
  from register_revocation_registry_definition_tails
         [of ex_profile_bad_tails ex_urlparse ex_rev_reg_def] bad parsed
  have "fst (register_revocation_registry_definition ex_urlparse ex_profile_bad_tails
            ex_rev_reg_def)
     = (Inl (RevocationError
               (''URI '' @ (rstrip ''tails.example'' ''/'' @ ''/''
                   @ make_rev_reg_def_id ex_rev_reg_def) @ '' is not a valid URL'')), [])"
    by blast
  then have c: "fst (register_revocation_registry_definition ex_urlparse ex_profile_bad_tails
            ex_rev_reg_def)
     = (Inl (RevocationError
               (''URI '' @ (''tails.example/'' @ ex_rev_reg_id) @ '' is not a valid URL'')), [])"
    by (simp add: strip2 ex_id)
  from a b c show ?thesis by blast
qed

theorem register_revocation_registry_definition_keeps_overwrite_witness:
  "fst (fst (register_revocation_registry_definition ex_urlparse ex_profile_unreachable
               ex_rev_reg_def))
     = Inl (AnonCredsRegistrationError [] (Some (LedgerError ''pool timeout'')))
   \<and> tails_location (rrd_value ex_rev_reg_def) = ''file:///tmp/tails''
   \<and> snd (register_revocation_registry_definition ex_urlparse ex_profile_unreachable
            ex_rev_reg_def)
     = ex_rev_reg_def
         \<lparr>rrd_value := (rrd_value ex_rev_reg_def)
            \<lparr>tails_location := ''https://tails.example/'' @ ex_rev_reg_id\<rparr>\<rparr>"
proof -
  have cfg: "settings ex_profile_unreachable ''tails_server_base_url''
               = Some ''https://tails.example/'' \<and> ''https://tails.example/'' \<noteq> []"
    by (simp add: ex_profile_unreachable_def ex_profile_def)
  have strip1: "rstrip ''https://tails.example/'' ''/'' = ''https://tails.example''"
    by (simp add: rstrip_def)
  have out: "fst (fst (register_revocation_registry_definition ex_urlparse
                         ex_profile_unreachable ex_rev_reg_def))
     = Inl (AnonCredsRegistrationError [] (Some (LedgerError ''pool timeout'')))"
    using ex_parse_ok
    by (simp add: register_revocation_registry_definition_def ex_profile_unreachable_def
        ex_profile_def ex_unreachable_ledger_def strip1 ex_id Let_def check_url_def bind_def
        try_except_def lift_def raise_def call_def)
  have orig: "tails_location (rrd_value ex_rev_reg_def) = ''file:///tmp/tails''"
    by (simp add: ex_rev_reg_def_def)
  from register_revocation_registry_definition_keeps_overwrite
         [where profile = ex_profile_unreachable and urlparse = ex_urlparse
            and rrd = ex_rev_reg_def] cfg
  have "snd (register_revocation_registry_definition ex_urlparse ex_profile_unreachable
            ex_rev_reg_def)
     = ex_rev_reg_def
         \<lparr>rrd_value := (rrd_value ex_rev_reg_def)
            \<lparr>tails_location := rstrip ''https://tails.example/'' ''/'' @ ''/''
                                  @ make_rev_reg_def_id ex_rev_reg_def\<rparr>\<rparr>"
    by blast
  then have "snd (register_revocation_registry_definition ex_urlparse ex_profile_unreachable
            ex_rev_reg_def)
     = ex_rev_reg_def
         \<lparr>rrd_value := (rrd_value ex_rev_reg_def)
            \<lparr>tails_location := ''https://tails.example/'' @ ex_rev_reg_id\<rparr>\<rparr>"
    by (simp add: strip1 ex_id)
  with out orig show ?thesis by blast
qed

section \<open>Resolver: properties\<close>

text \<open>
  \<open>get_schema\<close> catches a ledger error of its read and raises a resolution error with it
  as cause; \<open>get_credential_definition\<close> has no such handler and passes it on.
\<close>

lemma get_schema_wraps_ledger_errors:
  assumes "multitenant_mgr profile \<or> requests_executor profile"
    and "get_ledger_for_identifier profile schema_id = Inr (ledger_id, Some ledger)"
  shows "ledger_get_schema ledger schema_id = Inl err \<Longrightarrow> is_LedgerError err \<Longrightarrow>
           fst (get_schema profile schema_id)
             = Inl (AnonCredsResolutionError ''Failed to retrieve schema'' (Some err))"
    and "ledger_get_schema ledger schema_id = Inr None \<Longrightarrow>
           fst (get_schema profile schema_id)
             = Inl (AnonCredsObjectNotFound (''Credential definition not found: '' @ schema_id)
                      ledger_id)"
  using assms
  by (auto simp: get_schema_def bind_def try_except_def call_def raise_def)

lemma get_credential_definition_passes_ledger_errors:
  assumes "multitenant_mgr profile \<or> requests_executor profile"
    and "get_ledger_for_identifier profile cred_def_id = Inr (ledger_id, Some ledger)"
    and "ledger_get_credential_definition ledger cred_def_id = Inl err"
  shows "fst (get_credential_definition profile cred_def_id) = Inl err"
  using assms
  by (auto simp: get_credential_definition_def bind_def call_def)

text \<open>
  C8 at a failing input: on a ledger whose pool does not answer, \<open>get_schema\<close> raises
  \<open>AnonCredsResolutionError\<close> with the \<open>LedgerError\<close> as cause, and
  \<open>get_credential_definition\<close> lets the ledger client's own \<open>LedgerError\<close> reach the
  caller.
\<close>

theorem get_credential_definition_leaks_ledger_error:
  "get_schema ex_profile_unreachable ''did:example:issuer1:2:degree:1.0''
     = (Inl (AnonCredsResolutionError ''Failed to retrieve schema''
               (Some (LedgerError ''pool timeout''))),
        [GetLedgerForIdentifier ''did:example:issuer1:2:degree:1.0'',
         GetSchema ''did:example:issuer1:2:degree:1.0''])
   \<and> get_credential_definition ex_profile_unreachable ''did:example:issuer1:3:CL:12:default''
     = (Inl (LedgerError ''pool timeout''),
        [GetLedgerForIdentifier ''did:example:issuer1:3:CL:12:default'',
         GetCredentialDefinition ''did:example:issuer1:3:CL:12:default''])
   \<and> \<not> is_AnonCredsError (LedgerError ''pool timeout'')"
  by (simp add: get_schema_def get_credential_definition_def ex_profile_unreachable_def
      ex_profile_def ex_unreachable_ledger_def bind_def try_except_def call_def raise_def)

end
